theory Spec2Isabelle
  imports Complex_Main "HOL-Library.Sublist" "HOL-Library.Option_ord"
begin

section \<open>Values and constants\<close>

text \<open>
  The adapter of \<^verbatim>\<open>cast_control/wrapper.py\<close> reads snapshots of a cast device and
  answers the queries of the desktop media protocol; \<^verbatim>\<open>cast_control/run.py\<close> finds the
  device and keeps the session alive.

  Python values are modelled as follows. \<^verbatim>\<open>Optional[T]\<close> is \<open>T option\<close>. Numbers
  (Python \<^verbatim>\<open>int\<close> and finite \<^verbatim>\<open>float\<close>) are rationals: every finite float is a
  rational, comparisons between Python numbers are exact, and the rounding of a float
  product is not modelled (NaN and the infinities are excluded). Strings are lists of
  8-bit characters. Python's truth test (\<^verbatim>\<open>if x:\<close>) is written out: \<^verbatim>\<open>None\<close>, zero
  and the empty string are false.
\<close>

datatype py_error =
  TypeError
  | ValueError
  | NoChromecastFoundException string
  | SystemExit int

definition truthy_num :: "rat option \<Rightarrow> bool" where
  "truthy_num x = (case x of None \<Rightarrow> False | Some v \<Rightarrow> v \<noteq> 0)"

definition truthy_str :: "string option \<Rightarrow> bool" where
  "truthy_str x = (case x of None \<Rightarrow> False | Some s \<Rightarrow> s \<noteq> [])"

text \<open>
  Modelled from the spec: \<^verbatim>\<open>NO_DELTA\<close> is imported from the module
  \<^verbatim>\<open>cast_control/base.py\<close>, which is not among the sources. The spec speaks of a
  zero delta, and the source's comment on the comparison says
  \<^verbatim>\<open># can't adjust vol by 0\<close>.
\<close>

definition NO_DELTA :: rat where
  "NO_DELTA = 0"

text \<open>
  Modelled from the spec: \<^verbatim>\<open>US_IN_SEC\<close> is imported from the module
  \<^verbatim>\<open>cast_control/base.py\<close>, which is not among the sources. The spec has the
  protocol's time unit as microseconds and the device's as seconds.
\<close>

definition US_IN_SEC :: rat where
  "US_IN_SEC = 1000000"

text \<open>
  Modelled from the spec: \<^verbatim>\<open>BEGINNING\<close> is imported from the protocol library,
  which is not among the sources. The spec calls it time zero.
\<close>

definition BEGINNING :: int where
  "BEGINNING = 0"

section \<open>Constants that the sources do not fix\<close>

text \<open>
  The remaining names imported from \<^verbatim>\<open>cast_control/base.py\<close> and from the protocol
  library have no value in the sources at hand and none in the spec. They are
  parameters of the model: every function that reads one takes the record below.
  \<^verbatim>\<open>get_dbus_name\<close> and \<^verbatim>\<open>enforce_dbus_length\<close> are functions of the protocol
  library, taken as total.
\<close>

record Path =
  parent :: string
  stem :: string
  suffix :: string

record externals =
  NO_DURATION :: "rat option"
  DEFAULT_THUMB :: string
  LIGHT_THUMB :: string
  DEFAULT_DISC_NO :: int
  get_dbus_name :: "string option \<Rightarrow> string"
  enforce_dbus_length :: "string \<Rightarrow> string"
  NO_DEVICE :: string
  ARGS :: Path
  RC_NO_CHROMECAST :: int

section \<open>The device handle\<close>

text \<open>
  The records hold the attributes of the transport client's objects that the adapter
  reads. A snapshot of the handle is a value of \<open>Chromecast\<close>; the transport client
  replaces it between calls.
\<close>

record CastStatus =
  volume_level :: rat
  volume_muted :: bool
  icon_url :: "string option"

record MediaStatus =
  duration :: "rat option"
  current_time :: "rat option"
  adjusted_current_time :: "rat option"
  ms_artist :: "string option"
  album_name :: "string option"
  media_metadata :: "(string \<rightharpoonup> string) option"
  content_id :: "string option"
  track :: "int option"

record MediaController =
  mc_status :: "MediaStatus option"
  mc_title :: "string option"
  mc_thumbnail :: "string option"

record Chromecast =
  status :: "CastStatus option"
  media_controller :: MediaController
  app_display_name :: "string option"

text \<open>The commands the adapter sends to the handle.\<close>

datatype command =
  VolumeUp rat
  | VolumeDown rat

text \<open>
  The adapter: the handle, the icon flag, the duration watermark
  (\<^verbatim>\<open>_longest_duration\<close>) and whether the video provider's controller is active
  (\<^verbatim>\<open>yt_ctl.is_active\<close>).
\<close>

record DeviceWrapper =
  dev :: Chromecast
  light_icon :: bool
  longest_duration :: "rat option"
  yt_is_active :: bool

section \<open>Status accessors\<close>

text \<open>
  \<^verbatim>\<open>StatusMixin.cast_status\<close> and \<^verbatim>\<open>media_status\<close> return the handle's snapshot if
  it is true, else \<^verbatim>\<open>None\<close>; a status object is always true.
\<close>

definition cast_status :: "DeviceWrapper \<Rightarrow> CastStatus option" where
  "cast_status w = (case status (dev w) of Some s \<Rightarrow> Some s | None \<Rightarrow> None)"

definition media_status :: "DeviceWrapper \<Rightarrow> MediaStatus option" where
  "media_status w =
     (case mc_status (media_controller (dev w)) of Some s \<Rightarrow> Some s | None \<Rightarrow> None)"

section \<open>Volume\<close>

text \<open>
  \<^verbatim>\<open>
  def get_volume(self) -> VolumeDecimal:
    if not self.cast_status:
      return None
    return self.cast_status.volume_level

  def set_volume(self, val: VolumeDecimal):
    curr = self.get_volume()
    delta = val - curr
    # can't adjust vol by 0
    if delta > NO_DELTA:  # vol up
      self.dev.volume_up(delta)
    elif delta < NO_DELTA:
      self.dev.volume_down(abs(delta))
  \<close>
  The subtraction raises \<^verbatim>\<open>TypeError\<close> when an operand is \<^verbatim>\<open>None\<close>. The result of
  \<open>set_volume\<close> is the error, or the list of commands sent to the handle. Its argument
  is optional, so that what \<open>get_volume\<close> returns can be passed to it.
\<close>

definition get_volume :: "DeviceWrapper \<Rightarrow> rat option" where
  "get_volume w = (case cast_status w of None \<Rightarrow> None | Some s \<Rightarrow> Some (volume_level s))"

definition py_sub :: "rat option \<Rightarrow> rat option \<Rightarrow> py_error + rat" where
  "py_sub a b =
     (case a of None \<Rightarrow> Inl TypeError
      | Some x \<Rightarrow> (case b of None \<Rightarrow> Inl TypeError | Some y \<Rightarrow> Inr (x - y)))"

definition set_volume :: "rat option \<Rightarrow> DeviceWrapper \<Rightarrow> py_error + command list" where
  "set_volume val w =
     (let curr = get_volume w in
      case py_sub val curr of
        Inl e \<Rightarrow> Inl e
      | Inr delta \<Rightarrow>
          if delta > NO_DELTA then Inr [VolumeUp delta]
          else if delta < NO_DELTA then Inr [VolumeDown \<bar>delta\<bar>]
          else Inr [])"

text \<open>The amount by which a command changes the volume.\<close>

fun magnitude :: "command \<Rightarrow> rat" where
  "magnitude (VolumeUp x) = x"
| "magnitude (VolumeDown x) = x"

text \<open>The commands a call has sent: none when it raised before sending one.\<close>

definition issued :: "py_error + command list \<Rightarrow> command list" where
  "issued r = (case r of Inl e \<Rightarrow> [] | Inr cs \<Rightarrow> cs)"

section \<open>Titles\<close>

text \<open>
  \<^verbatim>\<open>
  class Titles(NamedTuple):
    title: Optional[str] = None
    artist: Optional[str] = None
    album: Optional[str] = None
  \<close>
  The constructor takes up to three positional arguments and raises \<^verbatim>\<open>TypeError\<close>
  on more.
\<close>

record Titles =
  title :: "string option"
  artist :: "string option"
  album :: "string option"

definition MAX_TITLES :: nat where
  "MAX_TITLES = 3"

fun Titles_new :: "string list \<Rightarrow> py_error + Titles" where
  "Titles_new [] = Inr \<lparr>title = None, artist = None, album = None\<rparr>"
| "Titles_new [a] = Inr \<lparr>title = Some a, artist = None, album = None\<rparr>"
| "Titles_new [a, b] = Inr \<lparr>title = Some a, artist = Some b, album = None\<rparr>"
| "Titles_new [a, b, c] = Inr \<lparr>title = Some a, artist = Some b, album = Some c\<rparr>"
| "Titles_new (a # b # c # d # ds) = Inl TypeError"

text \<open>
  \<^verbatim>\<open>
  def get_subtitle(self) -> Optional[str]:
    if not self.media_status:
      return None
    metadata = self.media_status.media_metadata
    if metadata and 'subtitle' in metadata:
      return metadata['subtitle']
    return None
  \<close>
\<close>

definition get_subtitle :: "DeviceWrapper \<Rightarrow> string option" where
  "get_subtitle w =
     (case media_status w of
        None \<Rightarrow> None
      | Some ms \<Rightarrow>
          (case media_metadata ms of
             None \<Rightarrow> None
           | Some metadata \<Rightarrow> metadata ''subtitle''))"

text \<open>\<^verbatim>\<open>if x: titles.append(x)\<close>, for an optional string \<open>x\<close>.\<close>

definition append_if :: "string option \<Rightarrow> string list \<Rightarrow> string list" where
  "append_if x titles =
     (case x of None \<Rightarrow> titles | Some s \<Rightarrow> if s \<noteq> [] then titles @ [s] else titles)"

text \<open>
  \<^verbatim>\<open>
  def titles(self) -> Titles:
    titles: List[str] = list()
    title = self.media_controller.title
    if title:
      titles.append(title)
    subtitle = self.get_subtitle()
    if subtitle:
      titles.append(subtitle)
    if self.media_status:
      artist = self.media_status.artist
      if artist:
        titles.append(artist)
      album = self.media_status.album_name
      if album:
        titles.append(album)
    app_name = self.dev.app_display_name
    if app_name:
      titles.append(app_name)
    titles = titles[:MAX_TITLES]
    return Titles(*titles)
  \<close>
\<close>

definition titles :: "DeviceWrapper \<Rightarrow> py_error + Titles" where
  "titles w =
     (let ts = [];
          ts = append_if (mc_title (media_controller (dev w))) ts;
          ts = append_if (get_subtitle w) ts;
          ts = (case media_status w of
                  None \<Rightarrow> ts
                | Some ms \<Rightarrow> append_if (album_name ms) (append_if (ms_artist ms) ts));
          ts = append_if (app_display_name (dev w)) ts;
          ts = take MAX_TITLES ts
      in Titles_new ts)"

section \<open>Duration and position\<close>

text \<open>\<^verbatim>\<open>int(x)\<close> on a float truncates towards zero.\<close>

definition py_int :: "rat \<Rightarrow> int" where
  "py_int x = (if x < 0 then \<lceil>x\<rceil> else \<lfloor>x\<rfloor>)"

text \<open>
  \<^verbatim>\<open>
  def get_current_position(self) -> Microseconds:
    status = self.media_status
    if not status:
      return BEGINNING
    position_secs = status.adjusted_current_time
    if position_secs:
      return int(position_secs * US_IN_SEC)
    return BEGINNING
  \<close>
\<close>

definition get_current_position :: "DeviceWrapper \<Rightarrow> int" where
  "get_current_position w =
     (case media_status w of
        None \<Rightarrow> BEGINNING
      | Some st \<Rightarrow>
          (case adjusted_current_time st of
             None \<Rightarrow> BEGINNING
           | Some position_secs \<Rightarrow>
               if position_secs \<noteq> 0 then py_int (position_secs * US_IN_SEC)
               else BEGINNING))"

text \<open>
  \<^verbatim>\<open>
  def __init__(self,):
    self._longest_duration: float = NO_DURATION

  def get_duration(self) -> Microseconds:
    duration: Optional[float] = None
    if self.media_status:
      duration = self.media_status.duration
    current = self.get_current_position()
    longest = self._longest_duration
    if duration:
      return duration * US_IN_SEC
    elif longest and longest > current:
      return longest
    elif current:
      self._longest_duration = current
      return current
    return NO_DURATION
  \<close>
  The call returns its value and the adapter, whose watermark it may have set.
\<close>

definition init_wrapper :: "externals \<Rightarrow> Chromecast \<Rightarrow> DeviceWrapper" where
  "init_wrapper b d =
     \<lparr>dev = d, light_icon = False, longest_duration = NO_DURATION b, yt_is_active = False\<rparr>"

definition get_duration :: "externals \<Rightarrow> DeviceWrapper \<Rightarrow> rat option \<times> DeviceWrapper" where
  "get_duration b w =
     (let duration = (case media_status w of None \<Rightarrow> None | Some ms \<Rightarrow> duration ms);
          current = get_current_position w;
          longest = longest_duration w
      in if truthy_num duration then (Some (the duration * US_IN_SEC), w)
         else if truthy_num longest \<and> the longest > of_int current then (longest, w)
         else if current \<noteq> 0
           then (Some (of_int current), w\<lparr>longest_duration := Some (of_int current)\<rparr>)
         else (NO_DURATION b, w))"

text \<open>
  \<^verbatim>\<open>round(x, 1)\<close>: the nearest multiple of one tenth, a tie going to the even one.
\<close>

definition RESOLUTION :: nat where
  "RESOLUTION = 1"

definition round_half_even :: "rat \<Rightarrow> int" where
  "round_half_even x =
     (let f = \<lfloor>x\<rfloor>; r = x - of_int f in
      if r < 1 / 2 then f
      else if r > 1 / 2 then f + 1
      else if even f then f else f + 1)"

definition py_round :: "rat \<Rightarrow> nat \<Rightarrow> rat" where
  "py_round x ndigits = of_int (round_half_even (x * 10 ^ ndigits)) / 10 ^ ndigits"

text \<open>
  \<^verbatim>\<open>
  def on_new_status(self, *args, **kwargs):
    if not self.has_current_time():
      self._longest_duration = None

  def has_current_time(self) -> bool:
    status = self.media_status
    if not status or not status.current_time:
      return False
    current_time = round(status.current_time, RESOLUTION)
    return current_time > BEGINNING
  \<close>
\<close>

definition has_current_time :: "DeviceWrapper \<Rightarrow> bool" where
  "has_current_time w =
     (case media_status w of
        None \<Rightarrow> False
      | Some st \<Rightarrow>
          (case current_time st of
             None \<Rightarrow> False
           | Some t \<Rightarrow>
               if t = 0 then False
               else py_round t RESOLUTION > of_int BEGINNING))"

definition on_new_status :: "DeviceWrapper \<Rightarrow> DeviceWrapper" where
  "on_new_status w =
     (if \<not> has_current_time w then w\<lparr>longest_duration := None\<rparr> else w)"

section \<open>Sequences of calls\<close>

text \<open>
  Between two calls the transport client may have replaced the handle's snapshot, so a
  call comes with the snapshot it finds. \<open>run\<close> is the adapter after a sequence of calls
  of \<^verbatim>\<open>get_duration\<close> and of the hook \<^verbatim>\<open>on_new_status\<close>, in any order;
  \<open>watermarks\<close> lists the watermark after each call of such a sequence.
\<close>

datatype call = GetDuration | OnNewStatus

fun run :: "externals \<Rightarrow> DeviceWrapper \<Rightarrow> (Chromecast \<times> call) list \<Rightarrow> DeviceWrapper" where
  "run b w [] = w"
| "run b w ((d, GetDuration) # calls) = run b (snd (get_duration b (w\<lparr>dev := d\<rparr>))) calls"
| "run b w ((d, OnNewStatus) # calls) = run b (on_new_status (w\<lparr>dev := d\<rparr>)) calls"

fun watermarks ::
  "externals \<Rightarrow> DeviceWrapper \<Rightarrow> (Chromecast \<times> call) list \<Rightarrow> rat option list" where
  "watermarks b w [] = []"
| "watermarks b w (c # calls) =
     (let w' = run b w [c]
      in longest_duration w' # watermarks b w' calls)"

section \<open>Strings\<close>

text \<open>
  \<^verbatim>\<open>sub in s\<close>: \<open>sub\<close> occurs in \<open>s\<close> as a contiguous run.
\<close>

fun str_in :: "string \<Rightarrow> string \<Rightarrow> bool" where
  "str_in sub [] = (sub = [])"
| "str_in sub (c # cs) = (prefix sub (c # cs) \<or> str_in sub cs)"

text \<open>
  \<^verbatim>\<open>s.split(sep)\<close> cuts \<open>s\<close> at the occurrences of \<open>sep\<close>, found from the left
  and not overlapping; the result is never empty. Python raises on the empty
  separator; every call in the sources passes a literal that is not empty, and the
  function is left unspecified there.
\<close>

function str_split :: "string \<Rightarrow> string \<Rightarrow> string list" where
  "str_split [] s = undefined"
| "str_split (p # ps) [] = [[]]"
| "str_split (p # ps) (c # cs) =
     (if prefix (p # ps) (c # cs) then [] # str_split (p # ps) (drop (length ps) cs)
      else (case str_split (p # ps) cs of
              [] \<Rightarrow> [[c]]
            | seg # segs \<Rightarrow> (c # seg) # segs))"
  by pat_completeness auto
termination
  by (relation "measure (\<lambda>(sep, s). length s)") auto

text \<open>
  \<^verbatim>\<open>s.lower()\<close> and \<^verbatim>\<open>s.upper()\<close>, on the letters of ASCII; other characters are
  kept.
\<close>

definition ascii_uppercase :: string where
  "ascii_uppercase = ''ABCDEFGHIJKLMNOPQRSTUVWXYZ''"

definition ascii_lowercase :: string where
  "ascii_lowercase = ''abcdefghijklmnopqrstuvwxyz''"

definition lower_char :: "char \<Rightarrow> char" where
  "lower_char c =
     (case map_of (zip ascii_uppercase ascii_lowercase) c of None \<Rightarrow> c | Some l \<Rightarrow> l)"

definition upper_char :: "char \<Rightarrow> char" where
  "upper_char c =
     (case map_of (zip ascii_lowercase ascii_uppercase) c of None \<Rightarrow> c | Some u \<Rightarrow> u)"

definition str_lower :: "string \<Rightarrow> string" where
  "str_lower s = map lower_char s"

definition str_upper :: "string \<Rightarrow> string" where
  "str_upper s = map upper_char s"

text \<open>\<^verbatim>\<open>a or b\<close> on a string and a fallback.\<close>

definition str_or :: "string option \<Rightarrow> string \<Rightarrow> string" where
  "str_or a b = (case a of None \<Rightarrow> b | Some s \<Rightarrow> if s \<noteq> [] then s else b)"

section \<open>Content identifier\<close>

text \<open>
  \<^verbatim>\<open>
  YOUTUBE_URLS: Set[str] = {
    'youtube.com/',
    'youtu.be/'
  }
  YT_LONG, YT_SHORT = YOUTUBE_URLS
  YT_VID_URL: str = f'https://{YT_LONG}watch?v='
  \<close>
  \<^verbatim>\<open>YOUTUBE_URLS\<close> is a set, and unpacking it binds the two names in the set's
  iteration order, which the language does not fix for strings (their hashes differ
  from one process to the next). The functions that read \<^verbatim>\<open>YT_LONG\<close> and
  \<^verbatim>\<open>YT_SHORT\<close> therefore take the pair as a parameter; \<open>yt_named\<close> is the binding
  the names describe, \<open>yt_swapped\<close> the other one.
\<close>

definition YOUTUBE_URLS :: "string set" where
  "YOUTUBE_URLS = {''youtube.com/'', ''youtu.be/''}"

definition yt_named :: "string \<times> string" where
  "yt_named = (''youtube.com/'', ''youtu.be/'')"

definition yt_swapped :: "string \<times> string" where
  "yt_swapped = (''youtu.be/'', ''youtube.com/'')"

definition YT_VID_URL :: "string \<times> string \<Rightarrow> string" where
  "YT_VID_URL yt = ''https://'' @ fst yt @ ''watch?v=''"

text \<open>
  \<^verbatim>\<open>
  def is_youtube(uri: str) -> bool:
    uri = uri.lower()
    return any(yt in uri for yt in YOUTUBE_URLS)

  def get_video_id(uri: str) -> Optional[str]:
    if not is_youtube(uri):
      return None
    video_id: Optional[str] = None
    if YT_LONG in uri:
      *_, video_id = uri.split('v=')
    elif YT_SHORT in uri:
      *_, video_id = uri.split('/')
    if video_id and '&' in video_id:
      video_id, *_ = video_id.split('&')
    return video_id
  \<close>
  The two unpackings take the last and the first element of a list that is never
  empty.
\<close>

definition is_youtube :: "string \<Rightarrow> bool" where
  "is_youtube uri = (let uri = str_lower uri in \<exists>yt \<in> YOUTUBE_URLS. str_in yt uri)"

definition get_video_id :: "string \<times> string \<Rightarrow> string \<Rightarrow> string option" where
  "get_video_id yt uri =
     (if \<not> is_youtube uri then None
      else
        let video_id =
              (if str_in (fst yt) uri then Some (last (str_split ''v='' uri))
               else if str_in (snd yt) uri then Some (last (str_split ''/'' uri))
               else None)
        in if truthy_str video_id \<and> str_in ''&'' (the video_id)
           then Some (hd (str_split ''&'' (the video_id)))
           else video_id)"

section \<open>Icon and source URL\<close>

text \<open>
  \<^verbatim>\<open>
  def get_art_url(self, track: Optional[int] = None) -> str:
    thumb = self.media_controller.thumbnail
    if thumb:
      return thumb
    icon: Optional[str] = None
    if self.cast_status:
      icon = self.cast_status.icon_url
    if icon:
      return icon
    if self.light_icon:
      return str(LIGHT_THUMB)
    return str(DEFAULT_THUMB)
  \<close>
\<close>

definition get_art_url :: "externals \<Rightarrow> DeviceWrapper \<Rightarrow> string" where
  "get_art_url b w =
     (let thumb = mc_thumbnail (media_controller (dev w)) in
      if truthy_str thumb then the thumb
      else
        let icon = (case cast_status w of None \<Rightarrow> None | Some cs \<Rightarrow> icon_url cs) in
        if truthy_str icon then the icon
        else if light_icon w then LIGHT_THUMB b
        else DEFAULT_THUMB b)"

text \<open>
  \<^verbatim>\<open>
  def _get_url(self) -> Optional[str]:
    content_id = None
    if self.media_status:
      content_id = self.media_status.content_id
    if content_id and 'http' not in content_id and self.yt_ctl.is_active:
      return f'{YT_VID_URL}{content_id}'
    return content_id
  \<close>
\<close>

definition get_url :: "string \<times> string \<Rightarrow> DeviceWrapper \<Rightarrow> string option" where
  "get_url yt w =
     (let content_id = (case media_status w of None \<Rightarrow> None | Some ms \<Rightarrow> content_id ms) in
      if truthy_str content_id \<and> \<not> str_in ''http'' (the content_id) \<and> yt_is_active w
      then Some (YT_VID_URL yt @ the content_id)
      else content_id)"

section \<open>Metadata\<close>

text \<open>
  \<^verbatim>\<open>
  @enforce_dbus_length
  def get_track_id(name: str) -> DbusObj:
    return f'/track/{get_dbus_name(name)}'

  def metadata(self) -> Metadata:
    title, artist, album = self.titles
    artists = [artist] if artist else []
    dbus_name: DbusObj = get_track_id(title)
    comments: List[str] = []
    track_no: Optional[int] = None
    if self.media_status:
      track_no = self.media_status.track
    metadata = {
      'mpris:trackid': dbus_name,
      'mpris:length': self.get_duration(),
      'mpris:artUrl': self.get_art_url(),
      'xesam:url': self._get_url(),
      'xesam:title': title,
      'xesam:artist': artists,
      'xesam:album': album,
      'xesam:albumArtist': artists,
      'xesam:discNumber': DEFAULT_DISC_NO,
      'xesam:trackNumber': track_no,
      'xesam:comment': comments,
    }
    return metadata
  \<close>
  The record has one field for each key of the dictionary.
\<close>

record Metadata =
  mpris_trackid :: string
  mpris_length :: "rat option"
  mpris_artUrl :: string
  xesam_url :: "string option"
  xesam_title :: "string option"
  xesam_artist :: "string list"
  xesam_album :: "string option"
  xesam_albumArtist :: "string list"
  xesam_discNumber :: int
  xesam_trackNumber :: "int option"
  xesam_comment :: "string list"

definition get_track_id :: "externals \<Rightarrow> string option \<Rightarrow> string" where
  "get_track_id b name = enforce_dbus_length b (''/track/'' @ get_dbus_name b name)"

definition metadata ::
  "externals \<Rightarrow> string \<times> string \<Rightarrow> DeviceWrapper \<Rightarrow> py_error + Metadata \<times> DeviceWrapper" where
  "metadata b yt w =
     (case titles w of
        Inl e \<Rightarrow> Inl e
      | Inr t \<Rightarrow>
          let artists = (if truthy_str (artist t) then [the (artist t)] else []);
              dbus_name = get_track_id b (title t);
              comments = [];
              track_no = (case media_status w of None \<Rightarrow> None | Some ms \<Rightarrow> track ms);
              (len, w') = get_duration b w
          in Inr (\<lparr>mpris_trackid = dbus_name,
                   mpris_length = len,
                   mpris_artUrl = get_art_url b w',
                   xesam_url = get_url yt w',
                   xesam_title = title t,
                   xesam_artist = artists,
                   xesam_album = album t,
                   xesam_albumArtist = artists,
                   xesam_discNumber = DEFAULT_DISC_NO b,
                   xesam_trackNumber = track_no,
                   xesam_comment = comments\<rparr>, w'))"

section \<open>Discovery and the top-level run\<close>

text \<open>
  What the functions of \<^verbatim>\<open>run.py\<close> do to the outside is recorded as a trace of
  events, next to the number of attempts made to find the device.
  \<open>LogInfo device wait\<close> stands for the message
  \<^verbatim>\<open>f"{device} not found. Waiting {wait} seconds before retrying."\<close>, and
  \<open>LogWarning e\<close> for \<^verbatim>\<open>f"{e} not found"\<close>. What the logging library, the
  transport client and the protocol server do when called is their business: the
  model records the call, and the exception where the library raises one on the
  arguments of the call.
\<close>

datatype event =
  BasicConfig string
  | LogInfo string rat
  | Sleep rat
  | SetIcon bool
  | Loop
  | LogWarning py_error

record world =
  attempts :: nat
  trace :: "event list"

definition emit :: "event list \<Rightarrow> world \<Rightarrow> world" where
  "emit es st = st\<lparr>trace := trace st @ es\<rparr>"

text \<open>\<^verbatim>\<open>time.sleep(secs)\<close> raises \<^verbatim>\<open>ValueError\<close> on a negative argument.\<close>

definition sleep :: "rat \<Rightarrow> world \<Rightarrow> py_error + world" where
  "sleep secs st = (if secs < 0 then Inl ValueError else Inr (emit [Sleep secs] st))"

text \<open>
  \<^verbatim>\<open>name or host or uuid or NO_DEVICE\<close>
\<close>

definition device_of ::
  "externals \<Rightarrow> string option \<Rightarrow> string option \<Rightarrow> string option \<Rightarrow> string" where
  "device_of b name host uuid = str_or name (str_or host (str_or uuid (NO_DEVICE b)))"

text \<open>
  \<^verbatim>\<open>
  def retry_until_found(name, host, uuid, wait = DEFAULT_WAIT,
                        retry_wait = DEFAULT_RETRY_WAIT) -> Optional[Server]:
    while True:
      mpris = create_adapters_and_server(name, host, uuid, retry_wait)
      if mpris or wait is None:
        return mpris
      device = name or host or uuid or NO_DEVICE
      logging.info(f"{device} not found. Waiting {wait} seconds before retrying.")
      sleep(wait)
  \<close>
  \<^verbatim>\<open>create_adapters_and_server\<close> asks the transport client for the device and
  returns the published server, or \<^verbatim>\<open>None\<close> when the device is not found. Its
  result depends on the network at the time of the call: the model takes it as a
  function \<open>create\<close> of the arguments and of the number of calls made before. The
  loop may run forever, and then the model's result is \<open>None\<close>; otherwise the result
  is what the loop returns or the exception that ends it.
\<close>

type_synonym 's create =
  "string option \<Rightarrow> string option \<Rightarrow> string option \<Rightarrow> rat option \<Rightarrow> nat \<Rightarrow> 's option"

partial_function (option) retry_until_found ::
  "'s create \<Rightarrow> externals \<Rightarrow> string option \<Rightarrow> string option \<Rightarrow> string option \<Rightarrow>
   rat option \<Rightarrow> rat option \<Rightarrow> world \<Rightarrow> ((py_error + 's option) \<times> world) option" where
  "retry_until_found create b name host uuid wait retry_wait st =
     (let mpris = create name host uuid retry_wait (attempts st);
          st = st\<lparr>attempts := Suc (attempts st)\<rparr>
      in case mpris of
           Some m \<Rightarrow> Some (Inr mpris, st)
         | None \<Rightarrow>
             (case wait of
                None \<Rightarrow> Some (Inr mpris, st)
              | Some secs \<Rightarrow>
                  (let st = emit [LogInfo (device_of b name host uuid) secs] st
                   in case sleep secs st of
                        Inl e \<Rightarrow> Some (Inl e, st)
                      | Inr st \<Rightarrow>
                          retry_until_found create b name host uuid wait retry_wait st)))"

text \<open>
  \<^verbatim>\<open>
  def set_log_level(level: str = LOG_LEVEL):
    level = level.upper()
    logging.basicConfig(level=level)
  \<close>
  When the process starts the root logger has no handler, and then
  \<^verbatim>\<open>logging.basicConfig(level=level)\<close> installs one and sets the level. The level
  is given by name: a name that is not among the level names of the logging library
  makes the call raise \<^verbatim>\<open>ValueError\<close>, and nothing is configured.
\<close>

definition level_names :: "string list" where
  "level_names =
     [''CRITICAL'', ''FATAL'', ''ERROR'', ''WARN'', ''WARNING'', ''INFO'', ''DEBUG'', ''NOTSET'']"

definition set_log_level :: "string \<Rightarrow> world \<Rightarrow> py_error + world" where
  "set_log_level level st =
     (let level = str_upper level
      in if level \<in> set level_names then Inr (emit [BasicConfig level] st)
         else Inl ValueError)"

text \<open>
  \<^verbatim>\<open>
  def run_server(name, host, uuid, wait = DEFAULT_WAIT, retry_wait = DEFAULT_RETRY_WAIT,
                 icon: bool = False, log_level: str = LOG_LEVEL):
    set_log_level(log_level)
    mpris = retry_until_found(name, host, uuid, wait, retry_wait)
    if mpris and icon:
      mpris.adapter.wrapper.set_icon(True)
    if not mpris:
      device = name or host or uuid or NO_DEVICE
      raise NoChromecastFoundException(device)
    mpris.loop()
  \<close>
  The result is the exception raised, or \<open>()\<close> once the server's loop has been
  entered.
\<close>

definition run_server ::
  "'s create \<Rightarrow> externals \<Rightarrow> string option \<Rightarrow> string option \<Rightarrow> string option \<Rightarrow>
   rat option \<Rightarrow> rat option \<Rightarrow> bool \<Rightarrow> string \<Rightarrow> world \<Rightarrow>
   ((py_error + unit) \<times> world) option" where
  "run_server create b name host uuid wait retry_wait icon log_level st =
     (case set_log_level log_level st of
        Inl e \<Rightarrow> Some (Inl e, st)
      | Inr st \<Rightarrow>
          (case retry_until_found create b name host uuid wait retry_wait st of
             None \<Rightarrow> None
           | Some (Inl e, st) \<Rightarrow> Some (Inl e, st)
           | Some (Inr mpris, st) \<Rightarrow>
               let st = (if mpris \<noteq> None \<and> icon then emit [SetIcon True] st else st) in
               if mpris = None
               then Some (Inl (NoChromecastFoundException (device_of b name host uuid)), st)
               else Some (Inr (), emit [Loop] st)))"

text \<open>
  \<^verbatim>\<open>
  def run_safe(name, host, uuid, wait, retry_wait, icon, log_level):
    try:
      run_server(name, host, uuid, wait, retry_wait, icon, log_level)
    except NoChromecastFoundException as e:
      logging.warning(f"{e} not found")
      sys.exit(RC_NO_CHROMECAST)
  \<close>
  \<^verbatim>\<open>sys.exit(rc)\<close> raises \<^verbatim>\<open>SystemExit\<close>, which ends the process with the exit
  code \<open>rc\<close>. Any other exception passes through.
\<close>

definition run_safe ::
  "'s create \<Rightarrow> externals \<Rightarrow> string option \<Rightarrow> string option \<Rightarrow> string option \<Rightarrow>
   rat option \<Rightarrow> rat option \<Rightarrow> bool \<Rightarrow> string \<Rightarrow> world \<Rightarrow>
   ((py_error + unit) \<times> world) option" where
  "run_safe create b name host uuid wait retry_wait icon log_level st =
     (case run_server create b name host uuid wait retry_wait icon log_level st of
        None \<Rightarrow> None
      | Some (Inl (NoChromecastFoundException device), st) \<Rightarrow>
          Some (Inl (SystemExit (RC_NO_CHROMECAST b)),
                emit [LogWarning (NoChromecastFoundException device)] st)
      | Some (Inl e, st) \<Rightarrow> Some (Inl e, st)
      | Some (Inr u, st) \<Rightarrow> Some (Inr u, st))"

text \<open>
  Modelled from the spec: the value of \<^verbatim>\<open>RC_NO_CHROMECAST\<close> is set in
  \<^verbatim>\<open>cast_control/base.py\<close>, which is missing. The spec says of it that the
  condition "maps to a specific non-zero process exit code".
\<close>

definition nonzero_exit_code :: "externals \<Rightarrow> bool" where
  "nonzero_exit_code b = (RC_NO_CHROMECAST b \<noteq> 0)"

section \<open>Daemon arguments\<close>

text \<open>
  \<^verbatim>\<open>
  class DaemonArgs(NamedTuple):
    name: Optional[str]
    host: Optional[str]
    uuid: Optional[str]
    wait: Optional[float]
    retry_wait: Optional[float]
    icon: bool
    log_level: str

    @property
    def file(self) -> Path:
      name, host, uuid, *_ = self
      device = name or host or uuid or NO_DEVICE
      return ARGS.with_stem(f'{device}-args')

    @staticmethod
    def load() -> Optional[DaemonArgs]:
      if ARGS.exists():
        dump = ARGS.read_bytes()
        return pickle.loads(dump)
      return None

    @staticmethod
    def delete():
      if ARGS.exists():
        ARGS.unlink()

    def save(self) -> Path:
      dump = pickle.dumps(self)
      ARGS.write_bytes(dump)
  \<close>
  A path is its directory, its stem and its suffix; \<^verbatim>\<open>with_stem\<close> raises
  \<^verbatim>\<open>ValueError\<close> on a path without a name and on a new name that holds a
  separator. The files are a map from paths to the records pickled into them
  (pickling followed by unpickling gives the record back). The fields of the record
  carry the prefix \<open>arg_\<close>.
\<close>

record DaemonArgs =
  arg_name :: "string option"
  arg_host :: "string option"
  arg_uuid :: "string option"
  arg_wait :: "rat option"
  arg_retry_wait :: "rat option"
  arg_icon :: bool
  arg_log_level :: string

type_synonym files = "Path \<rightharpoonup> DaemonArgs"

definition with_stem :: "Path \<Rightarrow> string \<Rightarrow> py_error + Path" where
  "with_stem p s =
     (if stem p @ suffix p = [] then Inl ValueError
      else if CHR ''/'' \<in> set (s @ suffix p) then Inl ValueError
      else Inr (p\<lparr>stem := s\<rparr>))"

definition DaemonArgs_file :: "externals \<Rightarrow> DaemonArgs \<Rightarrow> py_error + Path" where
  "DaemonArgs_file b a =
     (let device = device_of b (arg_name a) (arg_host a) (arg_uuid a)
      in with_stem (ARGS b) (device @ ''-args''))"

definition path_exists :: "files \<Rightarrow> Path \<Rightarrow> bool" where
  "path_exists fs p = (fs p \<noteq> None)"

definition load :: "externals \<Rightarrow> files \<Rightarrow> DaemonArgs option" where
  "load b fs = (if path_exists fs (ARGS b) then fs (ARGS b) else None)"

definition delete :: "externals \<Rightarrow> files \<Rightarrow> files" where
  "delete b fs = (if path_exists fs (ARGS b) then fs(ARGS b := None) else fs)"

definition save :: "externals \<Rightarrow> DaemonArgs \<Rightarrow> files \<Rightarrow> files" where
  "save b a fs = fs(ARGS b \<mapsto> a)"

section \<open>Sample values\<close>

text \<open>Concrete handles and constants, at which the theorems below are instantiated.\<close>

definition sample_externals :: externals where
  "sample_externals =
     \<lparr>NO_DURATION = None,
      DEFAULT_THUMB = ''default.png'',
      LIGHT_THUMB = ''light.png'',
      DEFAULT_DISC_NO = 1,
      get_dbus_name = (\<lambda>n. case n of None \<Rightarrow> ''unknown'' | Some s \<Rightarrow> s),
      enforce_dbus_length = take 255,
      NO_DEVICE = ''Device'',
      ARGS = \<lparr>parent = ''/tmp'', stem = ''service-args'', suffix = ''.tmp''\<rparr>,
      RC_NO_CHROMECAST = 1\<rparr>"

definition sample_cast :: CastStatus where
  "sample_cast = \<lparr>volume_level = 1 / 2, volume_muted = False, icon_url = None\<rparr>"

definition sample_media :: MediaStatus where
  "sample_media =
     \<lparr>duration = None,
      current_time = Some 12,
      adjusted_current_time = Some (25 / 2),
      ms_artist = Some ''Artist'',
      album_name = Some ''Album'',
      media_metadata = Some [''subtitle'' \<mapsto> ''Live''],
      content_id = Some ''abc123'',
      track = Some 3\<rparr>"

definition sample_off :: Chromecast where
  "sample_off =
     \<lparr>status = None,
      media_controller = \<lparr>mc_status = None, mc_title = None, mc_thumbnail = None\<rparr>,
      app_display_name = None\<rparr>"

definition sample_idle :: Chromecast where
  "sample_idle =
     \<lparr>status = Some sample_cast,
      media_controller = \<lparr>mc_status = None, mc_title = None, mc_thumbnail = None\<rparr>,
      app_display_name = Some ''Backdrop''\<rparr>"

definition sample_playing :: Chromecast where
  "sample_playing =
     \<lparr>status = Some sample_cast,
      media_controller =
        \<lparr>mc_status = Some sample_media, mc_title = Some ''Song'', mc_thumbnail = None\<rparr>,
      app_display_name = Some ''YouTube''\<rparr>"

text \<open>A snapshot in mid-play at \<open>secs\<close> seconds, reporting the duration \<open>dur\<close>.\<close>

definition sample_at :: "rat option \<Rightarrow> rat \<Rightarrow> Chromecast" where
  "sample_at dur secs =
     \<lparr>status = Some sample_cast,
      media_controller =
        \<lparr>mc_status =
           Some (sample_media\<lparr>duration := dur, current_time := Some secs,
                             adjusted_current_time := Some secs\<rparr>),
         mc_title = Some ''Song'', mc_thumbnail = None\<rparr>,
      app_display_name = Some ''YouTube''\<rparr>"

text \<open>
  Two networks: one where the device answers the third attempt, one where it never
  answers; and the state before the first attempt.
\<close>

definition create_third :: "string create" where
  "create_third name host uuid retry_wait k = (if k < 2 then None else Some ''mpris'')"

definition create_never :: "string create" where
  "create_never name host uuid retry_wait k = None"

definition world0 :: world where
  "world0 = \<lparr>attempts = 0, trace = []\<rparr>"

text \<open>The arguments of two sessions, for two devices.\<close>

definition args_tv :: DaemonArgs where
  "args_tv =
     \<lparr>arg_name = Some ''TV'', arg_host = None, arg_uuid = None, arg_wait = Some 30,
      arg_retry_wait = Some 5, arg_icon = False, arg_log_level = ''INFO''\<rparr>"

definition args_speaker :: DaemonArgs where
  "args_speaker =
     \<lparr>arg_name = Some ''Speaker'', arg_host = None, arg_uuid = None, arg_wait = None,
      arg_retry_wait = Some 5, arg_icon = True, arg_log_level = ''DEBUG''\<rparr>"

section \<open>Properties of the status accessors\<close>

lemma cast_status_eq: "cast_status w = status (dev w)"
  by (simp add: cast_status_def split: option.splits)

lemma media_status_eq: "media_status w = mc_status (media_controller (dev w))"
  by (simp add: media_status_def split: option.splits)

section \<open>Properties of the volume operations\<close>

lemma get_volume_Some:
  "cast_status w = Some s \<Longrightarrow> get_volume w = Some (volume_level s)"
  by (simp add: get_volume_def)

lemma get_volume_None:
  "cast_status w = None \<Longrightarrow> get_volume w = None"
  by (simp add: get_volume_def)

text \<open>
  C5. With a cast status present at volume \<open>c\<close>, \<open>set_volume v\<close> sends exactly one
  volume-up command (by \<open>v - c\<close>) when \<open>v\<close> exceeds \<open>c\<close>, exactly one volume-down
  command (by \<open>c - v\<close>) when \<open>v\<close> is below \<open>c\<close>, and no command when the delta is zero;
  for every adapter, \<open>set_volume (get_volume ())\<close> sends no command; and every
  command that \<open>set_volume\<close> sends changes the volume by more than zero.
\<close>

theorem set_volume_directional:
  "(cast_status w = Some s \<and> volume_level s = c \<longrightarrow>
      (v > c \<longrightarrow> set_volume (Some v) w = Inr [VolumeUp (v - c)]) \<and>
      (v < c \<longrightarrow> set_volume (Some v) w = Inr [VolumeDown (c - v)]) \<and>
      (v = c \<longrightarrow> set_volume (Some v) w = Inr [])) \<and>
   issued (set_volume (get_volume w) w) = [] \<and>
   (\<forall>cmd \<in> set (issued (set_volume val w)). 0 < magnitude cmd)"
proof -
  have positive: "\<forall>cmd \<in> set (issued (set_volume val w)). 0 < magnitude cmd"
    by (cases val; cases "get_volume w")
       (auto simp: set_volume_def py_sub_def issued_def NO_DELTA_def)
  have present: "set_volume (Some v) w =
      (if v > c then Inr [VolumeUp (v - c)]
       else if v < c then Inr [VolumeDown (c - v)] else Inr [])"
    if "cast_status w = Some s" "volume_level s = c"
    using that get_volume_Some [of w s]
    by (simp add: set_volume_def py_sub_def NO_DELTA_def)
  have same: "issued (set_volume (get_volume w) w) = []"
  proof (cases "cast_status w")
    case None
    then show ?thesis
      by (simp add: get_volume_None set_volume_def py_sub_def issued_def)
  next
    case (Some s)
    then show ?thesis
      by (simp add: get_volume_Some set_volume_def py_sub_def issued_def NO_DELTA_def)
  qed
  from present same positive show ?thesis by auto
qed

theorem set_volume_directional_witness:
  "cast_status (init_wrapper sample_externals sample_idle) = Some sample_cast \<and>
   volume_level sample_cast = 1 / 2 \<and>
   set_volume (Some (3 / 4)) (init_wrapper sample_externals sample_idle) = Inr [VolumeUp (1 / 4)] \<and>
   set_volume (Some (1 / 4)) (init_wrapper sample_externals sample_idle) = Inr [VolumeDown (1 / 4)] \<and>
   set_volume (Some (1 / 2)) (init_wrapper sample_externals sample_idle) = Inr [] \<and>
   set (issued (set_volume (Some (3 / 4)) (init_wrapper sample_externals sample_idle))) =
     {VolumeUp (1 / 4)} \<and>
   0 < magnitude (VolumeUp (1 / 4))"
  using set_volume_directional
      [of "init_wrapper sample_externals sample_idle" sample_cast "1 / 2" "3 / 4" "Some (3 / 4)"]
    set_volume_directional
      [of "init_wrapper sample_externals sample_idle" sample_cast "1 / 2" "1 / 4" "Some (1 / 4)"]
    set_volume_directional
      [of "init_wrapper sample_externals sample_idle" sample_cast "1 / 2" "1 / 2" "Some (1 / 2)"]
  by (simp add: cast_status_eq init_wrapper_def sample_idle_def sample_cast_def issued_def)

text \<open>
  C10. Without a cast status, \<open>get_volume\<close> returns \<open>None\<close> (not the number zero) and
  every call of \<open>set_volume\<close> raises \<open>TypeError\<close> at the subtraction, before any
  command is sent; and \<open>set_volume\<close> on a number returns without an error exactly when
  a cast status is present.
\<close>

theorem set_volume_needs_cast_status:
  "(cast_status w = None \<longrightarrow>
      get_volume w = None \<and> get_volume w \<noteq> Some 0 \<and>
      set_volume v w = Inl TypeError \<and> issued (set_volume v w) = []) \<and>
   ((\<exists>cs. set_volume (Some x) w = Inr cs) \<longleftrightarrow> cast_status w \<noteq> None)"
proof -
  have absent: "set_volume v w = Inl TypeError" if "cast_status w = None" for v
    using that get_volume_None [of w]
    by (cases v) (simp_all add: set_volume_def py_sub_def)
  have present: "\<exists>cs. set_volume (Some x) w = Inr cs" if "cast_status w = Some s" for s
    using that get_volume_Some [of w s]
    by (simp add: set_volume_def py_sub_def)
  show ?thesis
    using absent present get_volume_None [of w]
    by (cases "cast_status w") (auto simp: issued_def)
qed

theorem set_volume_needs_cast_status_witness:
  "cast_status (init_wrapper sample_externals sample_off) = None \<and>
   get_volume (init_wrapper sample_externals sample_off) = None \<and>
   set_volume (Some (1 / 2)) (init_wrapper sample_externals sample_off) = Inl TypeError \<and>
   cast_status (init_wrapper sample_externals sample_idle) \<noteq> None \<and>
   (\<exists>cs. set_volume (Some (1 / 2)) (init_wrapper sample_externals sample_idle) = Inr cs)"
  using set_volume_needs_cast_status
      [of "init_wrapper sample_externals sample_off" "Some (1 / 2)" "1 / 2"]
    set_volume_needs_cast_status
      [of "init_wrapper sample_externals sample_idle" "Some (1 / 2)" "1 / 2"]
  by (simp add: cast_status_eq init_wrapper_def sample_off_def sample_idle_def)

section \<open>Properties of the title aggregation\<close>

lemma Titles_new_take:
  "Titles_new (take MAX_TITLES xs) =
     Inr \<lparr>title = (if 0 < length xs then Some (xs ! 0) else None),
          artist = (if 1 < length xs then Some (xs ! 1) else None),
          album = (if 2 < length xs then Some (xs ! 2) else None)\<rparr>"
  by (cases xs rule: Titles_new.cases) (simp_all add: MAX_TITLES_def)

text \<open>
  C4. The titles are the sources that are true (a string that is present and not
  empty), in the order media title, subtitle of the media metadata, artist, album name,
  application display name: the first of them is the title, the second the artist,
  the third the album; further ones are dropped, and a position with no source left
  is \<open>None\<close>. A source that is missing or empty takes no position. The constructor
  never raises.
\<close>

theorem titles_priority:
  "titles w =
     (let sources =
            [mc_title (media_controller (dev w)),
             get_subtitle w,
             (case media_status w of None \<Rightarrow> None | Some ms \<Rightarrow> ms_artist ms),
             (case media_status w of None \<Rightarrow> None | Some ms \<Rightarrow> album_name ms),
             app_display_name (dev w)];
          present = map the (filter truthy_str sources);
          entry = (\<lambda>i. if i < length present then Some (present ! i) else None)
      in Inr \<lparr>title = entry 0, artist = entry 1, album = entry 2\<rparr>)"
proof -
  define P where "P = (\<lambda>xs. map the (filter truthy_str xs))"
  let ?artist = "case media_status w of None \<Rightarrow> None | Some ms \<Rightarrow> ms_artist ms"
  let ?album = "case media_status w of None \<Rightarrow> None | Some ms \<Rightarrow> album_name ms"
  have step: "append_if x (P xs) = P (xs @ [x])" for x xs
    by (simp add: P_def append_if_def truthy_str_def split: option.splits)
  have both: "(case media_status w of
                 None \<Rightarrow> ts
               | Some ms \<Rightarrow> append_if (album_name ms) (append_if (ms_artist ms) ts)) =
              append_if ?album (append_if ?artist ts)" for ts
    by (cases "media_status w") (simp_all add: append_if_def)
  have "titles w =
          Titles_new (take MAX_TITLES
            (append_if (app_display_name (dev w))
              (append_if ?album (append_if ?artist
                (append_if (get_subtitle w)
                  (append_if (mc_title (media_controller (dev w))) (P [])))))))"
    unfolding titles_def Let_def both by (simp add: P_def)
  also have "\<dots> =
          Titles_new (take MAX_TITLES
            (P [mc_title (media_controller (dev w)), get_subtitle w, ?artist, ?album,
                app_display_name (dev w)]))"
    by (simp only: step append.simps)
  finally show ?thesis
    unfolding P_def by (simp only: Titles_new_take Let_def)
qed

theorem titles_priority_witness:
  "titles (init_wrapper sample_externals sample_playing) =
     Inr \<lparr>title = Some ''Song'', artist = Some ''Live'', album = Some ''Artist''\<rparr> \<and>
   titles (init_wrapper sample_externals sample_idle) =
     Inr \<lparr>title = Some ''Backdrop'', artist = None, album = None\<rparr>"
  using titles_priority [of "init_wrapper sample_externals sample_playing"]
    titles_priority [of "init_wrapper sample_externals sample_idle"]
  by (simp add: init_wrapper_def sample_playing_def sample_idle_def sample_media_def
      media_status_def get_subtitle_def truthy_str_def)

section \<open>Properties of the duration tracker\<close>

text \<open>
  C1, as the code has it. If the media status reports a duration that is not zero, the
  call returns it times \<open>US_IN_SEC\<close> and leaves the adapter as it is. Otherwise (no
  media status, no duration, or the duration zero): if the watermark is set, is not
  zero and exceeds the current position, the call returns the watermark and leaves
  the adapter as it is; else if the current position is not zero, the call stores the
  position as the watermark and returns it; else it returns the constant
  \<open>NO_DURATION\<close>, whatever its value.
\<close>

theorem get_duration_cases:
  "(let reported = (case media_status w of None \<Rightarrow> None | Some ms \<Rightarrow> duration ms);
        current = get_current_position w;
        mark = longest_duration w;
        ahead = (\<exists>l. mark = Some l \<and> l \<noteq> 0 \<and> l > of_int current)
    in (\<forall>d. reported = Some d \<and> d \<noteq> 0 \<longrightarrow>
          get_duration b w = (Some (d * US_IN_SEC), w)) \<and>
       ((reported = None \<or> reported = Some 0) \<and> ahead \<longrightarrow>
          get_duration b w = (mark, w)) \<and>
       ((reported = None \<or> reported = Some 0) \<and> \<not> ahead \<and> current \<noteq> 0 \<longrightarrow>
          get_duration b w =
            (Some (of_int current), w\<lparr>longest_duration := Some (of_int current)\<rparr>)) \<and>
       ((reported = None \<or> reported = Some 0) \<and> \<not> ahead \<and> current = 0 \<longrightarrow>
          get_duration b w = (NO_DURATION b, w)))"
proof -
  let ?reported = "case media_status w of None \<Rightarrow> None | Some ms \<Rightarrow> duration ms"
  let ?current = "get_current_position w"
  let ?ahead = "\<exists>l. longest_duration w = Some l \<and> l \<noteq> 0 \<and> l > of_int ?current"
  have ahead: "truthy_num (longest_duration w) \<and> the (longest_duration w) > of_int ?current
      \<longleftrightarrow> ?ahead"
    by (cases "longest_duration w") (simp_all add: truthy_num_def)
  have explicit: "get_duration b w = (Some (d * US_IN_SEC), w)"
    if "?reported = Some d" "d \<noteq> 0" for d
    using that by (simp add: get_duration_def truthy_num_def)
  have fallback: "get_duration b w =
      (if ?ahead then (longest_duration w, w)
       else if ?current \<noteq> 0
         then (Some (of_int ?current), w\<lparr>longest_duration := Some (of_int ?current)\<rparr>)
       else (NO_DURATION b, w))"
    if "?reported = None \<or> ?reported = Some 0"
  proof -
    from that have "\<not> truthy_num ?reported" by (auto simp: truthy_num_def)
    then show ?thesis
      unfolding get_duration_def Let_def ahead by simp
  qed
  show ?thesis
    unfolding Let_def
  proof (intro conjI allI impI)
    fix d
    assume "?reported = Some d \<and> d \<noteq> 0"
    then show "get_duration b w = (Some (d * US_IN_SEC), w)"
      using explicit by blast
  next
    assume "(?reported = None \<or> ?reported = Some 0) \<and> ?ahead"
    then have r: "?reported = None \<or> ?reported = Some 0" and a: ?ahead by blast+
    show "get_duration b w = (longest_duration w, w)"
      unfolding fallback [OF r] using a by auto
  next
    assume "(?reported = None \<or> ?reported = Some 0) \<and> \<not> ?ahead \<and> ?current \<noteq> 0"
    then have r: "?reported = None \<or> ?reported = Some 0" and a: "\<not> ?ahead"
      and c: "?current \<noteq> 0" by blast+
    show "get_duration b w =
        (Some (of_int ?current), w\<lparr>longest_duration := Some (of_int ?current)\<rparr>)"
      unfolding fallback [OF r] using a c by auto
  next
    assume "(?reported = None \<or> ?reported = Some 0) \<and> \<not> ?ahead \<and> ?current = 0"
    then have r: "?reported = None \<or> ?reported = Some 0" and a: "\<not> ?ahead"
      and c: "?current = 0" by blast+
    show "get_duration b w = (NO_DURATION b, w)"
      unfolding fallback [OF r] using a c by auto
  qed
qed

theorem get_duration_cases_witness:
  "get_duration sample_externals (init_wrapper sample_externals (sample_at (Some 200) 3)) =
     (Some 200000000, init_wrapper sample_externals (sample_at (Some 200) 3)) \<and>
   get_duration sample_externals
     ((init_wrapper sample_externals (sample_at None 3))\<lparr>longest_duration := Some 5000000\<rparr>) =
     (Some 5000000,
      (init_wrapper sample_externals (sample_at None 3))\<lparr>longest_duration := Some 5000000\<rparr>) \<and>
   get_duration sample_externals (init_wrapper sample_externals (sample_at None 3)) =
     (Some 3000000,
      (init_wrapper sample_externals (sample_at None 3))\<lparr>longest_duration := Some 3000000\<rparr>) \<and>
   get_duration sample_externals (init_wrapper sample_externals sample_off) =
     (NO_DURATION sample_externals, init_wrapper sample_externals sample_off)"
  using get_duration_cases
      [of "init_wrapper sample_externals (sample_at (Some 200) 3)" sample_externals]
    get_duration_cases
      [of "(init_wrapper sample_externals (sample_at None 3))\<lparr>longest_duration := Some 5000000\<rparr>"
          sample_externals]
    get_duration_cases [of "init_wrapper sample_externals (sample_at None 3)" sample_externals]
    get_duration_cases [of "init_wrapper sample_externals sample_off" sample_externals]
  by (simp add: Let_def get_current_position_def py_int_def BEGINNING_def
      media_status_def init_wrapper_def sample_at_def sample_off_def sample_media_def
      sample_externals_def US_IN_SEC_def)

text \<open>
  C1 as stated fails on a status that reports the duration zero at three seconds of
  play, on an adapter with no watermark: the call does not return zero times
  \<open>US_IN_SEC\<close>, it returns the position and stores it as the watermark.
\<close>

theorem get_duration_zero_duration_counterexample:
  "media_status (init_wrapper sample_externals (sample_at (Some 0) 3)) =
     Some (sample_media\<lparr>duration := Some 0, current_time := Some 3,
                        adjusted_current_time := Some 3\<rparr>) \<and>
   get_duration sample_externals (init_wrapper sample_externals (sample_at (Some 0) 3)) =
     (Some 3000000,
      (init_wrapper sample_externals (sample_at (Some 0) 3))\<lparr>longest_duration := Some 3000000\<rparr>) \<and>
   get_duration sample_externals (init_wrapper sample_externals (sample_at (Some 0) 3)) \<noteq>
     (Some (0 * US_IN_SEC), init_wrapper sample_externals (sample_at (Some 0) 3))"
  by (simp add: get_duration_def get_current_position_def media_status_def init_wrapper_def
      sample_at_def sample_media_def sample_externals_def truthy_num_def py_int_def
      US_IN_SEC_def BEGINNING_def Let_def)

text \<open>
  A call of \<^verbatim>\<open>get_duration\<close> does not lower the watermark, unless the watermark is
  the number zero and the position is negative; and a watermark that is the number
  zero can only come from the constructor, never from a call. The hook reads the
  snapshot only: it returns the adapter as it is when it finds a current time, and
  with the watermark \<open>None\<close> otherwise.
\<close>

lemma get_duration_step:
  assumes "longest_duration w = Some 0 \<longrightarrow> 0 \<le> get_current_position w"
  shows "longest_duration w \<le> longest_duration (snd (get_duration b w))"
  using assms
  by (cases "longest_duration w")
     (auto simp: get_duration_def Let_def truthy_num_def)

lemma get_duration_zero:
  "longest_duration (snd (get_duration b w)) = Some 0 \<Longrightarrow> longest_duration w = Some 0"
  by (auto simp: get_duration_def Let_def split: if_splits)

lemma on_new_status_zero:
  "longest_duration (on_new_status w) = Some 0 \<Longrightarrow> longest_duration w = Some 0"
  by (auto simp: on_new_status_def split: if_splits)

lemma run_zero:
  "longest_duration (run b w calls) = Some 0 \<Longrightarrow> longest_duration w = Some 0"
proof (induction b w calls rule: run.induct)
  case (1 b w)
  then show ?case by simp
next
  case (2 b w d calls)
  then have "longest_duration (snd (get_duration b (w\<lparr>dev := d\<rparr>))) = Some 0" by simp
  then show ?case using get_duration_zero by fastforce
next
  case (3 b w d calls)
  then have "longest_duration (on_new_status (w\<lparr>dev := d\<rparr>)) = Some 0" by simp
  then show ?case using on_new_status_zero by fastforce
qed

lemma position_of_snapshot:
  "get_current_position (w\<lparr>dev := d\<rparr>) = get_current_position (init_wrapper b d)"
  by (simp add: get_current_position_def media_status_def init_wrapper_def)

lemma current_time_of_snapshot:
  "has_current_time (w\<lparr>dev := d\<rparr>) = has_current_time (init_wrapper b d)"
  by (simp add: has_current_time_def media_status_def init_wrapper_def)

lemma on_new_status_keeps: "has_current_time w \<Longrightarrow> on_new_status w = w"
  by (simp add: on_new_status_def)

lemma on_new_status_clears:
  "\<not> has_current_time w \<Longrightarrow> on_new_status w = w\<lparr>longest_duration := None\<rparr>"
  by (simp add: on_new_status_def)

lemma watermarks_sorted:
  assumes "longest_duration w = Some 0 \<longrightarrow>
             (\<forall>(d, c)\<in>set calls. 0 \<le> get_current_position (init_wrapper b d))"
    and "\<forall>(d, c)\<in>set calls. c = OnNewStatus \<longrightarrow> has_current_time (init_wrapper b d)"
  shows "sorted (longest_duration w # watermarks b w calls)"
  using assms
proof (induction calls arbitrary: w)
  case Nil
  then show ?case by simp
next
  case (Cons x calls)
  obtain d c where x: "x = (d, c)" by (cases x)
  let ?w' = "run b w [x]"
  have step: "longest_duration w \<le> longest_duration ?w' \<and>
      (longest_duration ?w' = Some 0 \<longrightarrow> longest_duration w = Some 0)"
  proof (cases c)
    case GetDuration
    have pos: "longest_duration (w\<lparr>dev := d\<rparr>) = Some 0 \<longrightarrow>
        0 \<le> get_current_position (w\<lparr>dev := d\<rparr>)"
      using Cons.prems(1) x position_of_snapshot [where w = w and d = d and b = b] by simp
    have "longest_duration w \<le> longest_duration (snd (get_duration b (w\<lparr>dev := d\<rparr>)))"
      using get_duration_step [OF pos, of b] by simp
    moreover have "longest_duration (snd (get_duration b (w\<lparr>dev := d\<rparr>))) = Some 0 \<longrightarrow>
        longest_duration w = Some 0"
      using get_duration_zero [of b "w\<lparr>dev := d\<rparr>"] by simp
    ultimately show ?thesis using x GetDuration by simp
  next
    case OnNewStatus
    then have "has_current_time (w\<lparr>dev := d\<rparr>)"
      using Cons.prems(2) x current_time_of_snapshot [where w = w and d = d and b = b] by simp
    then have "on_new_status (w\<lparr>dev := d\<rparr>) = w\<lparr>dev := d\<rparr>"
      by (rule on_new_status_keeps)
    then show ?thesis using x OnNewStatus by simp
  qed
  have "sorted (longest_duration ?w' # watermarks b ?w' calls)"
    using Cons.IH [of ?w'] Cons.prems step by simp
  with step show ?case
    by (simp add: Let_def del: sorted_wrt.simps run.simps add: sorted2)
qed

lemma round_half_even_pos: "0 < round_half_even x \<longleftrightarrow> 1 / 2 < x"
proof -
  have f: "of_int \<lfloor>x\<rfloor> \<le> x" "x < of_int \<lfloor>x\<rfloor> + 1" by linarith+
  consider "\<lfloor>x\<rfloor> \<le> -1" | "\<lfloor>x\<rfloor> = 0" | "1 \<le> \<lfloor>x\<rfloor>" by linarith
  then show ?thesis
  proof cases
    case 1
    then have "x < 0" using f by linarith
    with 1 show ?thesis by (simp add: round_half_even_def Let_def)
  next
    case 2
    then show ?thesis by (auto simp: round_half_even_def Let_def)
  next
    case 3
    then have "1 \<le> x" using f by linarith
    with 3 show ?thesis by (simp add: round_half_even_def Let_def)
  qed
qed

lemma has_current_time_iff:
  "has_current_time w \<longleftrightarrow>
     (\<exists>st t. media_status w = Some st \<and> current_time st = Some t \<and> 1 / 20 < t)"
  by (auto simp: has_current_time_def py_round_def RESOLUTION_def BEGINNING_def
      round_half_even_pos zero_less_divide_iff split: option.splits)

lemma sample_positions:
  "get_current_position (init_wrapper b (sample_at dur 3)) = 3000000"
  "get_current_position (init_wrapper b (sample_at dur 5)) = 5000000"
  "get_current_position (init_wrapper b (sample_at dur 4)) = 4000000"
  "get_current_position (init_wrapper b (sample_at dur 2)) = 2000000"
  "get_current_position (init_wrapper b sample_off) = 0"
  by (simp_all add: get_current_position_def media_status_def init_wrapper_def sample_at_def
      sample_off_def sample_media_def py_int_def US_IN_SEC_def BEGINNING_def)

text \<open>
  C2. Take the adapter in any state it can reach from its constructor, and from there
  any sequence of calls of \<^verbatim>\<open>get_duration\<close> and of the hook \<^verbatim>\<open>on_new_status\<close>,
  in any order, in which every call of the hook finds a current time, so that none
  fires a reset. Then the watermarks after the calls are in non-decreasing order,
  starting with the watermark before the first call, the empty watermark being below
  every number; this holds whether or not a duration is reported. The constant
  \<open>NO_DURATION\<close> is the watermark of a new adapter: were it the number zero (the spec
  says it is not), the positions in the sequence must not be negative. The hook leaves
  the adapter as it is when it finds a current time, and it changes the watermark to
  \<open>None\<close>, and nothing else, when it finds none; it finds a current time exactly when
  the media status reports one above a twentieth of a second, which is when rounding
  to one decimal gives more than zero.
\<close>

theorem watermark_monotone:
  assumes "NO_DURATION b = Some 0 \<longrightarrow>
             (\<forall>(d, c)\<in>set calls. 0 \<le> get_current_position (init_wrapper b d))"
    and "\<forall>(d, c)\<in>set calls. c = OnNewStatus \<longrightarrow> has_current_time (init_wrapper b d)"
  shows "(let w = run b (init_wrapper b d0) history
          in sorted (longest_duration w # watermarks b w calls)) \<and>
         (has_current_time w' \<longrightarrow> on_new_status w' = w') \<and>
         (\<not> has_current_time w' \<longrightarrow> on_new_status w' = w'\<lparr>longest_duration := None\<rparr>) \<and>
         (has_current_time w' \<longleftrightarrow>
            (\<exists>st t. media_status w' = Some st \<and> current_time st = Some t \<and> 1 / 20 < t))"
proof -
  let ?w = "run b (init_wrapper b d0) history"
  have "longest_duration ?w = Some 0 \<longrightarrow> NO_DURATION b = Some 0"
    using run_zero [of b "init_wrapper b d0" history] by (simp add: init_wrapper_def)
  with assms(1) have "longest_duration ?w = Some 0 \<longrightarrow>
      (\<forall>(d, c)\<in>set calls. 0 \<le> get_current_position (init_wrapper b d))"
    by blast
  then have "sorted (longest_duration ?w # watermarks b ?w calls)"
    using assms(2) by (rule watermarks_sorted)
  moreover have "has_current_time w' \<longrightarrow> on_new_status w' = w'"
    using on_new_status_keeps by blast
  moreover have "\<not> has_current_time w' \<longrightarrow> on_new_status w' = w'\<lparr>longest_duration := None\<rparr>"
    using on_new_status_clears by blast
  ultimately show ?thesis
    using has_current_time_iff [of w'] by (simp add: Let_def)
qed

theorem watermark_monotone_witness:
  "watermarks (sample_externals\<lparr>NO_DURATION := Some 0\<rparr>)
     (run (sample_externals\<lparr>NO_DURATION := Some 0\<rparr>)
        (init_wrapper (sample_externals\<lparr>NO_DURATION := Some 0\<rparr>) sample_off)
        [(sample_at None 2, GetDuration), (sample_off, OnNewStatus)])
     [(sample_at None 3, GetDuration), (sample_at None 5, GetDuration),
      (sample_at None 4, OnNewStatus), (sample_at None 4, GetDuration)] =
     [Some 3000000, Some 5000000, Some 5000000, Some 5000000] \<and>
   sorted (longest_duration
       (run (sample_externals\<lparr>NO_DURATION := Some 0\<rparr>)
          (init_wrapper (sample_externals\<lparr>NO_DURATION := Some 0\<rparr>) sample_off)
          [(sample_at None 2, GetDuration), (sample_off, OnNewStatus)]) #
     watermarks (sample_externals\<lparr>NO_DURATION := Some 0\<rparr>)
       (run (sample_externals\<lparr>NO_DURATION := Some 0\<rparr>)
          (init_wrapper (sample_externals\<lparr>NO_DURATION := Some 0\<rparr>) sample_off)
          [(sample_at None 2, GetDuration), (sample_off, OnNewStatus)])
       [(sample_at None 3, GetDuration), (sample_at None 5, GetDuration),
        (sample_at None 4, OnNewStatus), (sample_at None 4, GetDuration)]) \<and>
   has_current_time (init_wrapper sample_externals (sample_at None 4)) \<and>
   on_new_status
     ((init_wrapper sample_externals (sample_at None 4))\<lparr>longest_duration := Some 5000000\<rparr>) =
     (init_wrapper sample_externals (sample_at None 4))\<lparr>longest_duration := Some 5000000\<rparr> \<and>
   \<not> has_current_time (init_wrapper sample_externals sample_off) \<and>
   on_new_status ((init_wrapper sample_externals sample_off)\<lparr>longest_duration := Some 7\<rparr>) =
     (init_wrapper sample_externals sample_off)\<lparr>longest_duration := None\<rparr>"
proof -
  let ?b = "sample_externals\<lparr>NO_DURATION := Some 0\<rparr>"
  let ?history = "[(sample_at None 2, GetDuration), (sample_off, OnNewStatus)]"
  let ?calls = "[(sample_at None 3, GetDuration), (sample_at None 5, GetDuration),
      (sample_at None 4, OnNewStatus), (sample_at None 4, GetDuration)]"
  let ?playing = "(init_wrapper sample_externals (sample_at None 4))\<lparr>longest_duration := Some 5000000\<rparr>"
  let ?stopped = "(init_wrapper sample_externals sample_off)\<lparr>longest_duration := Some 7\<rparr>"
  have time: "has_current_time (init_wrapper b' (sample_at None 4))" for b'
    by (simp add: has_current_time_iff media_status_def init_wrapper_def sample_at_def)
  have positions: "NO_DURATION ?b = Some 0 \<longrightarrow>
      (\<forall>(d, c)\<in>set ?calls. 0 \<le> get_current_position (init_wrapper ?b d))"
    by (simp add: sample_positions)
  have hooks: "\<forall>(d, c)\<in>set ?calls. c = OnNewStatus \<longrightarrow> has_current_time (init_wrapper ?b d)"
    by (simp add: time)
  have marks: "watermarks ?b (run ?b (init_wrapper ?b sample_off) ?history) ?calls =
      [Some 3000000, Some 5000000, Some 5000000, Some 5000000]"
    by (simp add: get_duration_def get_current_position_def on_new_status_def
        has_current_time_iff media_status_def init_wrapper_def sample_off_def sample_at_def
        sample_media_def truthy_num_def py_int_def US_IN_SEC_def BEGINNING_def Let_def)
  have playing: "has_current_time ?playing"
    by (simp add: has_current_time_iff media_status_def init_wrapper_def sample_at_def)
  have stopped: "\<not> has_current_time ?stopped"
    by (simp add: has_current_time_iff media_status_def init_wrapper_def sample_off_def)
  note at_playing = watermark_monotone [OF positions hooks, of sample_off ?history ?playing]
  note at_stopped = watermark_monotone [OF positions hooks, of sample_off ?history ?stopped]
  have "sorted (longest_duration (run ?b (init_wrapper ?b sample_off) ?history) #
      watermarks ?b (run ?b (init_wrapper ?b sample_off) ?history) ?calls)"
    using at_playing [THEN conjunct1] by (simp only: Let_def)
  moreover have "on_new_status ?playing = ?playing"
    using at_playing [THEN conjunct2, THEN conjunct1] playing by (simp only:)
  moreover have "on_new_status ?stopped =
      (init_wrapper sample_externals sample_off)\<lparr>longest_duration := None\<rparr>"
    using at_stopped [THEN conjunct2, THEN conjunct2, THEN conjunct1] stopped
    by (simp add: init_wrapper_def)
  moreover have "\<not> has_current_time (init_wrapper sample_externals sample_off)"
    by (simp add: has_current_time_iff media_status_def init_wrapper_def sample_off_def)
  ultimately show ?thesis
    using marks time [of sample_externals] by (simp only: simp_thms)
qed

section \<open>Properties of the metadata record\<close>

lemma titles_without_media:
  assumes "media_status w = None"
  shows "titles w =
           Inr \<lparr>title = (if truthy_str (mc_title (media_controller (dev w)))
                         then mc_title (media_controller (dev w))
                         else if truthy_str (app_display_name (dev w))
                         then app_display_name (dev w) else None),
                artist = (if truthy_str (mc_title (media_controller (dev w))) \<and>
                             truthy_str (app_display_name (dev w))
                          then app_display_name (dev w) else None),
                album = None\<rparr>"
  using assms
  by (cases "mc_title (media_controller (dev w))"; cases "app_display_name (dev w)")
     (simp_all add: titles_def media_status_eq get_subtitle_def append_if_def MAX_TITLES_def
        truthy_str_def)

lemma get_duration_without_media:
  assumes "media_status w = None"
  shows "get_duration b w =
           (if truthy_num (longest_duration w) \<and> the (longest_duration w) > 0
            then longest_duration w else NO_DURATION b, w)"
  using assms
  by (simp add: get_duration_def get_current_position_def media_status_eq truthy_num_def
      BEGINNING_def Let_def)

lemma metadata_without_media_eq:
  assumes "media_status w = None"
  shows "metadata b yt w =
           (case titles w of
              Inl e \<Rightarrow> Inl e
            | Inr t \<Rightarrow>
                Inr (\<lparr>mpris_trackid = get_track_id b (title t),
                      mpris_length =
                        (if truthy_num (longest_duration w) \<and> the (longest_duration w) > 0
                         then longest_duration w else NO_DURATION b),
                      mpris_artUrl = get_art_url b w,
                      xesam_url = None,
                      xesam_title = title t,
                      xesam_artist = (if truthy_str (artist t) then [the (artist t)] else []),
                      xesam_album = album t,
                      xesam_albumArtist = (if truthy_str (artist t) then [the (artist t)] else []),
                      xesam_discNumber = DEFAULT_DISC_NO b,
                      xesam_trackNumber = None,
                      xesam_comment = []\<rparr>, w))"
  using assms
  by (simp add: metadata_def get_duration_without_media get_url_def media_status_eq
      truthy_str_def Let_def split: sum.splits)

text \<open>
  C9, as the code has it. With no media status, \<open>metadata\<close> raises nothing, leaves the
  adapter as it is and returns a record in which: the album, the source URL and the
  track number are \<open>None\<close>; the length is \<open>NO_DURATION\<close> when the watermark is \<open>None\<close>
  or still the value the constructor gave it; the art URL is \<open>DEFAULT_THUMB\<close> when
  there is no thumbnail, no cast-status icon and the light flag is unset; and the title
  and the two artist lists are empty when the handle reports neither a media title nor
  an application display name.
\<close>

theorem metadata_without_media:
  assumes "media_status w = None"
  shows "\<exists>m. metadata b yt w = Inr (m, w) \<and>
           mpris_trackid m = get_track_id b (xesam_title m) \<and>
           (longest_duration w = None \<or> longest_duration w = NO_DURATION b \<longrightarrow>
              mpris_length m = NO_DURATION b) \<and>
           (\<not> truthy_str (mc_thumbnail (media_controller (dev w))) \<and>
            (cast_status w = None \<or>
             (\<exists>cs. cast_status w = Some cs \<and> \<not> truthy_str (icon_url cs))) \<and>
            \<not> light_icon w \<longrightarrow> mpris_artUrl m = DEFAULT_THUMB b) \<and>
           xesam_album m = None \<and> xesam_url m = None \<and> xesam_trackNumber m = None \<and>
           xesam_comment m = [] \<and> xesam_discNumber m = DEFAULT_DISC_NO b \<and>
           (\<not> truthy_str (mc_title (media_controller (dev w))) \<and>
            \<not> truthy_str (app_display_name (dev w)) \<longrightarrow>
              xesam_title m = None \<and> xesam_artist m = [] \<and> xesam_albumArtist m = [])"
proof -
  define len where "len =
      (if truthy_num (longest_duration w) \<and> the (longest_duration w) > 0
       then longest_duration w else NO_DURATION b)"
  define t where "t =
      (if truthy_str (mc_title (media_controller (dev w)))
       then mc_title (media_controller (dev w))
       else if truthy_str (app_display_name (dev w))
       then app_display_name (dev w) else None)"
  define a where "a =
      (if truthy_str (mc_title (media_controller (dev w))) \<and>
          truthy_str (app_display_name (dev w))
       then app_display_name (dev w) else None)"
  define m where "m =
      \<lparr>mpris_trackid = get_track_id b t, mpris_length = len,
       mpris_artUrl = get_art_url b w, xesam_url = None, xesam_title = t,
       xesam_artist = (if truthy_str a then [the a] else []), xesam_album = None,
       xesam_albumArtist = (if truthy_str a then [the a] else []),
       xesam_discNumber = DEFAULT_DISC_NO b, xesam_trackNumber = None,
       xesam_comment = []\<rparr>"
  have eq: "metadata b yt w = Inr (m, w)"
    unfolding metadata_without_media_eq [OF assms] titles_without_media [OF assms]
    by (simp add: m_def len_def t_def a_def)
  have art: "mpris_artUrl m = DEFAULT_THUMB b"
    if "\<not> truthy_str (mc_thumbnail (media_controller (dev w))) \<and>
        (cast_status w = None \<or>
         (\<exists>cs. cast_status w = Some cs \<and> \<not> truthy_str (icon_url cs))) \<and>
        \<not> light_icon w"
    using that by (auto simp: m_def get_art_url_def truthy_str_def Let_def)
  have length: "mpris_length m = NO_DURATION b"
    if "longest_duration w = None \<or> longest_duration w = NO_DURATION b"
    using that by (auto simp: m_def len_def truthy_num_def)
  have empty: "xesam_title m = None \<and> xesam_artist m = [] \<and> xesam_albumArtist m = []"
    if "\<not> truthy_str (mc_title (media_controller (dev w))) \<and>
        \<not> truthy_str (app_display_name (dev w))"
    using that by (simp add: m_def t_def a_def truthy_str_def)
  have rest: "mpris_trackid m = get_track_id b (xesam_title m)" "xesam_album m = None"
    "xesam_url m = None" "xesam_trackNumber m = None" "xesam_comment m = []"
    "xesam_discNumber m = DEFAULT_DISC_NO b"
    by (simp_all add: m_def)
  from eq art length empty rest show ?thesis by blast
qed

theorem metadata_without_media_witness:
  "media_status (init_wrapper sample_externals sample_off) = None \<and>
   metadata sample_externals yt_named (init_wrapper sample_externals sample_off) =
     Inr (\<lparr>mpris_trackid = ''/track/unknown'', mpris_length = None,
           mpris_artUrl = ''default.png'', xesam_url = None, xesam_title = None,
           xesam_artist = [], xesam_album = None, xesam_albumArtist = [],
           xesam_discNumber = 1, xesam_trackNumber = None, xesam_comment = []\<rparr>,
          init_wrapper sample_externals sample_off)"
proof -
  have none: "media_status (init_wrapper sample_externals sample_off) = None"
    by (simp add: media_status_eq init_wrapper_def sample_off_def)
  from metadata_without_media [OF none, of sample_externals yt_named]
  obtain m where "metadata sample_externals yt_named (init_wrapper sample_externals sample_off) =
      Inr (m, init_wrapper sample_externals sample_off)"
    and "mpris_trackid m = ''/track/unknown''"
    and "mpris_length m = None" "mpris_artUrl m = ''default.png''" "xesam_album m = None"
    "xesam_url m = None" "xesam_trackNumber m = None" "xesam_comment m = []"
    "xesam_discNumber m = 1" "xesam_title m = None" "xesam_artist m = []"
    "xesam_albumArtist m = []"
    by (auto simp: cast_status_eq init_wrapper_def sample_off_def sample_externals_def
        truthy_str_def get_track_id_def)
  then show ?thesis using none by (cases m) simp
qed

text \<open>
  C9 as stated fails on an idle device: no media status, and the application display
  name \<open>Backdrop\<close>. The title of the record is then that name, not empty.
\<close>

theorem metadata_idle_app_counterexample:
  "media_status (init_wrapper sample_externals sample_idle) = None \<and>
   metadata sample_externals yt_named (init_wrapper sample_externals sample_idle) =
     Inr (\<lparr>mpris_trackid = ''/track/Backdrop'', mpris_length = None,
           mpris_artUrl = ''default.png'', xesam_url = None, xesam_title = Some ''Backdrop'',
           xesam_artist = [], xesam_album = None, xesam_albumArtist = [],
           xesam_discNumber = 1, xesam_trackNumber = None, xesam_comment = []\<rparr>,
          init_wrapper sample_externals sample_idle)"
  by (simp add: metadata_def titles_def get_subtitle_def append_if_def MAX_TITLES_def
      get_track_id_def get_duration_def get_current_position_def get_art_url_def get_url_def
      media_status_def cast_status_def truthy_str_def truthy_num_def BEGINNING_def
      init_wrapper_def sample_idle_def sample_cast_def sample_externals_def Let_def)

section \<open>Properties of the content identifier\<close>

lemma str_split_not_Nil: "str_split (p # ps) s \<noteq> []"
  by (induction "p # ps" s rule: str_split.induct) (auto split: list.splits)

lemma str_split_absent: "\<not> str_in (p # ps) s \<Longrightarrow> str_split (p # ps) s = [s]"
  by (induction "p # ps" s rule: str_split.induct) (auto split: list.splits)

lemma str_split_two:
  "str_in (p # ps) s \<Longrightarrow> \<exists>a b segs. str_split (p # ps) s = a # b # segs"
proof (induction "p # ps" s rule: str_split.induct)
  case 2
  then show ?case by simp
next
  case (3 c cs)
  show ?case
  proof (cases "prefix (p # ps) (c # cs)")
    case True
    then show ?thesis
      using str_split_not_Nil [of p ps "drop (length ps) cs"]
      by (cases "str_split (p # ps) (drop (length ps) cs)") auto
  next
    case False
    with 3 show ?thesis by auto
  qed
qed

lemma last_str_split_Cons:
  assumes "str_in (p # ps) cs" "\<not> prefix (p # ps) (c # cs)"
  shows "last (str_split (p # ps) (c # cs)) = last (str_split (p # ps) cs)"
  using assms str_split_two [OF assms(1)] by auto

lemma prefix_str_in: "prefix sub s \<Longrightarrow> str_in sub s"
  by (cases s) auto

lemma str_in_append: "str_in sub (pre @ sub @ post)"
  by (induction pre) (auto simp: prefix_str_in)

lemma str_in_iff: "str_in sub s \<longleftrightarrow> (\<exists>pre post. s = pre @ sub @ post)"
proof
  show "str_in sub s \<Longrightarrow> \<exists>pre post. s = pre @ sub @ post"
  proof (induction sub s rule: str_in.induct)
    case (1 sub)
    then show ?case by simp
  next
    case (2 sub c cs)
    show ?case
    proof (cases "prefix sub (c # cs)")
      case True
      then obtain post where "c # cs = sub @ post" by (auto simp: prefix_def)
      then have "c # cs = [] @ sub @ post" by simp
      then show ?thesis by blast
    next
      case False
      with 2 obtain pre post where "cs = pre @ sub @ post" by auto
      then have "c # cs = (c # pre) @ sub @ post" by simp
      then show ?thesis by blast
    qed
  qed
qed (auto simp: str_in_append)

lemma str_in_map: "str_in sub s \<Longrightarrow> str_in (map f sub) (map f s)"
proof -
  assume "str_in sub s"
  then obtain pre post where "s = pre @ sub @ post" by (auto simp: str_in_iff)
  then have "map f s = map f pre @ map f sub @ map f post" by simp
  then show ?thesis by (simp only: str_in_append)
qed

lemma str_in_single: "str_in [c] s \<longleftrightarrow> c \<in> set s"
  by (induction s) auto

lemma str_split_at_sep:
  "str_split (p # ps) ((p # ps) @ rest) = [] # str_split (p # ps) rest"
  by simp

lemma last_after_sep:
  "last (str_split (p # ps) ((p # ps) @ rest)) = last (str_split (p # ps) rest)"
  by (simp only: str_split_at_sep last.simps str_split_not_Nil if_False)

lemma last_split_v:
  "\<not> str_in ''v='' post \<Longrightarrow> last (str_split ''v='' (pre @ ''v='' @ post)) = post"
proof (induction pre rule: induct_list012)
  case 1
  have "last (str_split ''v='' (''v='' @ post)) = last (str_split ''v='' post)"
    by (rule last_after_sep)
  moreover from 1 have "str_split ''v='' post = [post]" by (rule str_split_absent)
  ultimately show ?case by simp
next
  case (2 x)
  have "str_in ''v='' (''v='' @ post)"
    using str_in_append [of "''v=''" "[]" post] by simp
  moreover have "\<not> prefix ''v='' (x # ''v='' @ post)" by simp
  ultimately have "last (str_split ''v='' (x # ''v='' @ post)) =
      last (str_split ''v='' (''v='' @ post))"
    by (rule last_str_split_Cons)
  also have "\<dots> = last (str_split ''v='' post)" by (rule last_after_sep)
  also from 2 have "str_split ''v='' post = [post]" by (rule str_split_absent)
  finally show ?case by simp
next
  case (3 x y zs)
  show ?case
  proof (cases "x = CHR ''v'' \<and> y = CHR ''=''")
    case True
    then have "(x # y # zs) @ ''v='' @ post = ''v='' @ (zs @ ''v='' @ post)" by simp
    then have "last (str_split ''v='' ((x # y # zs) @ ''v='' @ post)) =
        last (str_split ''v='' (zs @ ''v='' @ post))"
      by (simp only: last_after_sep)
    with 3 show ?thesis by simp
  next
    case False
    have "str_in ''v='' ((y # zs) @ ''v='' @ post)" by (rule str_in_append)
    moreover have "\<not> prefix ''v='' (x # (y # zs) @ ''v='' @ post)" using False by auto
    ultimately have "last (str_split ''v='' (x # (y # zs) @ ''v='' @ post)) =
        last (str_split ''v='' ((y # zs) @ ''v='' @ post))"
      by (rule last_str_split_Cons)
    with 3 show ?thesis by simp
  qed
qed

lemma last_split_slash:
  "CHR ''/'' \<notin> set post \<Longrightarrow> last (str_split ''/'' (pre @ ''/'' @ post)) = post"
proof (induction pre)
  case Nil
  have "last (str_split ''/'' (''/'' @ post)) = last (str_split ''/'' post)"
    by (rule last_after_sep)
  with Nil show ?case by (simp add: str_split_absent str_in_single)
next
  case (Cons x pre)
  show ?case
  proof (cases "x = CHR ''/''")
    case True
    then have "(x # pre) @ ''/'' @ post = ''/'' @ (pre @ ''/'' @ post)" by simp
    then have "last (str_split ''/'' ((x # pre) @ ''/'' @ post)) =
        last (str_split ''/'' (pre @ ''/'' @ post))"
      by (simp only: last_after_sep)
    with Cons show ?thesis by simp
  next
    case False
    have "str_in ''/'' (pre @ ''/'' @ post)" by (rule str_in_append)
    moreover have "\<not> prefix ''/'' (x # pre @ ''/'' @ post)" using False by auto
    ultimately have "last (str_split ''/'' (x # pre @ ''/'' @ post)) =
        last (str_split ''/'' (pre @ ''/'' @ post))"
      by (rule last_str_split_Cons)
    with Cons show ?thesis by simp
  qed
qed

lemma hd_split_single:
  "hd (str_split [c] s) = takeWhile (\<lambda>x. x \<noteq> c) s"
proof (induction s)
  case Nil
  then show ?case by simp
next
  case (Cons x s)
  then show ?case
    using str_split_not_Nil [of c "[]" s]
    by (cases "str_split [c] s") auto
qed

lemma lower_hosts:
  "str_lower ''youtube.com/'' = ''youtube.com/''"
  "str_lower ''youtu.be/'' = ''youtu.be/''"
  by (simp_all add: str_lower_def lower_char_def ascii_uppercase_def ascii_lowercase_def)

lemma is_youtube_long: "str_in ''youtube.com/'' uri \<Longrightarrow> is_youtube uri"
  using str_in_map [of "''youtube.com/''" uri lower_char] lower_hosts(1)
  by (simp add: is_youtube_def YOUTUBE_URLS_def str_lower_def)

lemma is_youtube_short: "str_in ''youtu.be/'' uri \<Longrightarrow> is_youtube uri"
  using str_in_map [of "''youtu.be/''" uri lower_char] lower_hosts(2)
  by (simp add: is_youtube_def YOUTUBE_URLS_def str_lower_def)

lemma cut_at_amp:
  "(if truthy_str (Some v) \<and> str_in ''&'' v then Some (hd (str_split ''&'' v)) else Some v) =
     Some (takeWhile (\<lambda>c. c \<noteq> CHR ''&'') v)"
proof (cases "CHR ''&'' \<in> set v")
  case True
  then have "v \<noteq> []" by auto
  with True show ?thesis
    by (simp add: truthy_str_def str_in_single hd_split_single)
next
  case False
  then have tw: "takeWhile (\<lambda>c. c \<noteq> CHR ''&'') v = v"
    by (intro takeWhile_eq_all_conv [THEN iffD2]) auto
  from False have "\<not> str_in ''&'' v" by (simp add: str_in_single)
  then show ?thesis unfolding tw by simp
qed

lemma get_video_id_long:
  assumes "str_in ''youtube.com/'' uri"
  shows "get_video_id yt_named uri =
           Some (takeWhile (\<lambda>c. c \<noteq> CHR ''&'') (last (str_split ''v='' uri)))"
proof -
  let ?v = "last (str_split ''v='' uri)"
  have "get_video_id yt_named uri =
      (if truthy_str (Some ?v) \<and> str_in ''&'' ?v then Some (hd (str_split ''&'' ?v))
       else Some ?v)"
    using assms is_youtube_long [OF assms]
    by (simp add: get_video_id_def yt_named_def Let_def split del: if_split cong: if_cong)
  then show ?thesis by (simp only: cut_at_amp)
qed

lemma get_video_id_short:
  assumes "\<not> str_in ''youtube.com/'' uri" "str_in ''youtu.be/'' uri"
  shows "get_video_id yt_named uri =
           Some (takeWhile (\<lambda>c. c \<noteq> CHR ''&'') (last (str_split ''/'' uri)))"
proof -
  let ?v = "last (str_split ''/'' uri)"
  have "get_video_id yt_named uri =
      (if truthy_str (Some ?v) \<and> str_in ''&'' ?v then Some (hd (str_split ''&'' ?v))
       else Some ?v)"
    using assms is_youtube_short [OF assms(2)]
    by (simp add: get_video_id_def yt_named_def Let_def split del: if_split cong: if_cong)
  then show ?thesis by (simp only: cut_at_amp)
qed

text \<open>
  C3, as the code has it, for the binding of \<^verbatim>\<open>YT_LONG\<close> and \<^verbatim>\<open>YT_SHORT\<close> that their
  names describe. For a URI in which \<open>youtube.com/\<close> occurs as written, the result is
  what follows the last \<open>v=\<close> (the whole URI if there is none), cut before its first
  \<open>&\<close>. For a URI in which \<open>youtube.com/\<close> does not occur and \<open>youtu.be/\<close> occurs as
  written, it is what follows the last \<open>/\<close>, cut before its first \<open>&\<close>. For a URI
  in which neither occurs, whatever the case of its letters, \<open>is_youtube\<close> is false
  and the result is \<open>None\<close>. On the spec's two examples the results are
  \<open>abc123?t=5\<close> and \<open>abc123\<close>.
\<close>

theorem get_video_id_named:
  "(str_in ''youtube.com/'' uri \<and> uri = pre @ ''v='' @ post \<and> \<not> str_in ''v='' post \<longrightarrow>
      get_video_id yt_named uri = Some (takeWhile (\<lambda>c. c \<noteq> CHR ''&'') post)) \<and>
   (str_in ''youtube.com/'' uri \<and> \<not> str_in ''v='' uri \<longrightarrow>
      get_video_id yt_named uri = Some (takeWhile (\<lambda>c. c \<noteq> CHR ''&'') uri)) \<and>
   (\<not> str_in ''youtube.com/'' uri \<and> str_in ''youtu.be/'' uri \<and>
    uri = pre @ ''/'' @ post \<and> CHR ''/'' \<notin> set post \<longrightarrow>
      get_video_id yt_named uri = Some (takeWhile (\<lambda>c. c \<noteq> CHR ''&'') post)) \<and>
   (\<not> str_in ''youtube.com/'' (str_lower uri) \<and> \<not> str_in ''youtu.be/'' (str_lower uri) \<longrightarrow>
      \<not> is_youtube uri \<and> get_video_id yt_named uri = None) \<and>
   get_video_id yt_named ''https://youtu.be/abc123?t=5'' = Some ''abc123?t=5'' \<and>
   get_video_id yt_named ''https://www.youtube.com/watch?v=abc123&list=xyz'' = Some ''abc123''"
proof (intro conjI impI)
  assume "str_in ''youtube.com/'' uri \<and> uri = pre @ ''v='' @ post \<and> \<not> str_in ''v='' post"
  then have long: "str_in ''youtube.com/'' uri" and uri: "uri = pre @ ''v='' @ post"
    and post: "\<not> str_in ''v='' post" by blast+
  show "get_video_id yt_named uri = Some (takeWhile (\<lambda>c. c \<noteq> CHR ''&'') post)"
    unfolding get_video_id_long [OF long] unfolding uri last_split_v [OF post] ..
next
  assume "str_in ''youtube.com/'' uri \<and> \<not> str_in ''v='' uri"
  then have long: "str_in ''youtube.com/'' uri" and none: "\<not> str_in ''v='' uri" by blast+
  show "get_video_id yt_named uri = Some (takeWhile (\<lambda>c. c \<noteq> CHR ''&'') uri)"
    unfolding get_video_id_long [OF long] str_split_absent [OF none] by simp
next
  assume "\<not> str_in ''youtube.com/'' uri \<and> str_in ''youtu.be/'' uri \<and>
    uri = pre @ ''/'' @ post \<and> CHR ''/'' \<notin> set post"
  then have long: "\<not> str_in ''youtube.com/'' uri" and short: "str_in ''youtu.be/'' uri"
    and uri: "uri = pre @ ''/'' @ post" and post: "CHR ''/'' \<notin> set post" by blast+
  show "get_video_id yt_named uri = Some (takeWhile (\<lambda>c. c \<noteq> CHR ''&'') post)"
    unfolding get_video_id_short [OF long short] unfolding uri last_split_slash [OF post] ..
next
  assume "\<not> str_in ''youtube.com/'' (str_lower uri) \<and> \<not> str_in ''youtu.be/'' (str_lower uri)"
  then show "\<not> is_youtube uri"
    by (simp add: is_youtube_def YOUTUBE_URLS_def)
next
  assume "\<not> str_in ''youtube.com/'' (str_lower uri) \<and> \<not> str_in ''youtu.be/'' (str_lower uri)"
  then show "get_video_id yt_named uri = None"
    by (simp add: get_video_id_def is_youtube_def YOUTUBE_URLS_def)
next
  show "get_video_id yt_named ''https://youtu.be/abc123?t=5'' = Some ''abc123?t=5''"
    by code_simp
next
  show "get_video_id yt_named ''https://www.youtube.com/watch?v=abc123&list=xyz'' = Some ''abc123''"
    by code_simp
qed

theorem get_video_id_named_witness:
  "get_video_id yt_named ''https://www.youtube.com/watch?v=abc&t=1'' = Some ''abc'' \<and>
   get_video_id yt_named ''https://www.youtube.com/abc'' = Some ''https://www.youtube.com/abc'' \<and>
   get_video_id yt_named ''https://youtu.be/abc&t=1'' = Some ''abc'' \<and>
   \<not> is_youtube ''https://example.org/abc'' \<and>
   get_video_id yt_named ''https://example.org/abc'' = None"
proof -
  have facts:
    "str_in ''youtube.com/'' ''https://www.youtube.com/watch?v=abc&t=1''"
    "\<not> str_in ''v='' ''abc&t=1''"
    "str_in ''youtube.com/'' ''https://www.youtube.com/abc''"
    "\<not> str_in ''v='' ''https://www.youtube.com/abc''"
    "\<not> str_in ''youtube.com/'' ''https://youtu.be/abc&t=1''"
    "str_in ''youtu.be/'' ''https://youtu.be/abc&t=1''"
    "\<not> str_in ''youtube.com/'' (str_lower ''https://example.org/abc'')"
    "\<not> str_in ''youtu.be/'' (str_lower ''https://example.org/abc'')"
    by code_simp+
  show ?thesis
    using facts
      get_video_id_named [of "''https://www.youtube.com/watch?v=abc&t=1''"
        "''https://www.youtube.com/watch?''" "''abc&t=1''"]
      get_video_id_named [of "''https://www.youtube.com/abc''" "[]" "[]"]
      get_video_id_named [of "''https://youtu.be/abc&t=1''" "''https://youtu.be''" "''abc&t=1''"]
      get_video_id_named [of "''https://example.org/abc''" "[]" "[]"]
    by simp
qed

text \<open>
  C3 as stated fails on its first example, whose result keeps the \<open>?t=5\<close>, and on a URI
  with two \<open>v=\<close>, where the result follows the last one, not the first. With the other
  binding of the two names the results differ again.
\<close>

theorem get_video_id_examples_counterexample:
  "get_video_id yt_named ''https://youtu.be/abc123?t=5'' = Some ''abc123?t=5'' \<and>
   get_video_id yt_swapped ''https://youtu.be/abc123?t=5'' = Some ''https://youtu.be/abc123?t=5'' \<and>
   get_video_id yt_named ''https://www.youtube.com/watch?v=abcv=def'' = Some ''def'' \<and>
   get_video_id yt_swapped ''https://www.youtube.com/watch?v=abcv=def'' = Some ''watch?v=abcv=def''"
  by code_simp

section \<open>Properties of discovery and of the top-level run\<close>

lemma retry_found:
  "create name host uuid retry_wait (attempts st) = Some m \<Longrightarrow>
   retry_until_found create b name host uuid wait retry_wait st =
     Some (Inr (Some m), st\<lparr>attempts := Suc (attempts st)\<rparr>)"
  by (subst retry_until_found.simps) simp

lemma retry_disabled:
  "create name host uuid retry_wait (attempts st) = None \<Longrightarrow>
   retry_until_found create b name host uuid None retry_wait st =
     Some (Inr None, st\<lparr>attempts := Suc (attempts st)\<rparr>)"
  by (subst retry_until_found.simps) simp

lemma retry_step:
  "create name host uuid retry_wait (attempts st) = None \<Longrightarrow> 0 \<le> secs \<Longrightarrow>
   retry_until_found create b name host uuid (Some secs) retry_wait st =
     retry_until_found create b name host uuid (Some secs) retry_wait
       (emit [LogInfo (device_of b name host uuid) secs, Sleep secs]
          (st\<lparr>attempts := Suc (attempts st)\<rparr>))"
  by (subst retry_until_found.simps) (simp add: sleep_def emit_def)

lemma retry_negative_wait:
  "create name host uuid retry_wait (attempts st) = None \<Longrightarrow> secs < 0 \<Longrightarrow>
   retry_until_found create b name host uuid (Some secs) retry_wait st =
     Some (Inl ValueError,
       emit [LogInfo (device_of b name host uuid) secs] (st\<lparr>attempts := Suc (attempts st)\<rparr>))"
  by (subst retry_until_found.simps) (simp add: sleep_def)

lemma retry_after_failures:
  assumes "0 \<le> secs"
    and "\<forall>i<k. create name host uuid retry_wait (attempts st + i) = None"
    and "create name host uuid retry_wait (attempts st + k) = Some m"
  shows "retry_until_found create b name host uuid (Some secs) retry_wait st =
     Some (Inr (Some m),
       st\<lparr>attempts := Suc (attempts st + k),
          trace := trace st @
            concat (replicate k [LogInfo (device_of b name host uuid) secs, Sleep secs])\<rparr>)"
  using assms(2,3)
proof (induction k arbitrary: st)
  case 0
  then show ?case by (simp add: retry_found)
next
  case (Suc k)
  let ?st = "emit [LogInfo (device_of b name host uuid) secs, Sleep secs]
          (st\<lparr>attempts := Suc (attempts st)\<rparr>)"
  have first: "create name host uuid retry_wait (attempts st) = None"
    using Suc.prems(1) by (metis add.right_neutral zero_less_Suc)
  have "\<forall>i<k. create name host uuid retry_wait (attempts ?st + i) = None"
    using Suc.prems(1) by (auto simp: emit_def)
  moreover have "create name host uuid retry_wait (attempts ?st + k) = Some m"
    using Suc.prems(2) by (simp add: emit_def)
  ultimately have "retry_until_found create b name host uuid (Some secs) retry_wait ?st =
     Some (Inr (Some m),
       ?st\<lparr>attempts := Suc (attempts ?st + k),
          trace := trace ?st @
            concat (replicate k [LogInfo (device_of b name host uuid) secs, Sleep secs])\<rparr>)"
    by (rule Suc.IH)
  then show ?case
    using retry_step [of create name host uuid retry_wait st secs b] first assms(1)
    by (simp add: emit_def)
qed

lemma retry_only_success:
  assumes "retry_until_found create b name host uuid wait retry_wait st = Some (Inr r, st')"
  shows "wait \<noteq> None \<longrightarrow> r \<noteq> None"
proof -
  have "wait \<noteq> None \<longrightarrow> fst (Inr r :: py_error + 'a option, st') \<noteq> Inr None"
    by (rule retry_until_found.raw_induct
        [where P = "\<lambda>create b name host uuid wait retry_wait st y.
            wait \<noteq> None \<longrightarrow> fst y \<noteq> Inr None",
         OF _ assms])
       (auto simp: Let_def split: option.splits sum.splits)
  then show ?thesis by simp
qed

lemma retry_error:
  assumes "retry_until_found create b name host uuid wait retry_wait st = Some (Inl e, st')"
  shows "e = ValueError \<and> (\<exists>secs. wait = Some secs \<and> secs < 0)"
proof -
  have "\<forall>x. fst (Inl e :: py_error + 'a option, st') = Inl x \<longrightarrow>
          x = ValueError \<and> (\<exists>secs. wait = Some secs \<and> secs < 0)"
  proof (rule retry_until_found.raw_induct
        [where P = "\<lambda>create b name host uuid wait retry_wait st y.
            \<forall>x. fst y = Inl x \<longrightarrow> x = ValueError \<and> (\<exists>secs. wait = Some secs \<and> secs < 0)",
         OF _ assms], goal_cases)
    case (1 f create b name host uuid wait retry_wait st y)
    show ?case
    proof (intro allI impI)
      fix x
      assume x: "fst y = Inl x"
      show "x = ValueError \<and> (\<exists>secs. wait = Some secs \<and> secs < 0)"
      proof (cases "create name host uuid retry_wait (attempts st)")
        case (Some m)
        with 1(2) x show ?thesis by (auto simp: Let_def)
      next
        case None
        show ?thesis
        proof (cases wait)
          case None
          with 1(2) x \<open>create name host uuid retry_wait (attempts st) = None\<close>
          show ?thesis by (auto simp: Let_def)
        next
          case (Some secs)
          show ?thesis
          proof (cases "secs < 0")
            case True
            with 1(2) x Some \<open>create name host uuid retry_wait (attempts st) = None\<close>
            show ?thesis by (auto simp: Let_def sleep_def)
          next
            case False
            with 1(2) Some \<open>create name host uuid retry_wait (attempts st) = None\<close>
            have "f create b name host uuid wait retry_wait
                (emit [Sleep secs] (emit [LogInfo (device_of b name host uuid) secs]
                   (st\<lparr>attempts := Suc (attempts st)\<rparr>))) = Some y"
              by (simp add: Let_def sleep_def)
            from 1(1) [OF this] x show ?thesis by blast
          qed
        qed
      qed
    qed
  qed
  then show ?thesis by simp
qed

lemma retry_never:
  assumes "0 \<le> secs" "\<forall>i. create name host uuid retry_wait (attempts st + i) = None"
  shows "retry_until_found create b name host uuid (Some secs) retry_wait st = None"
proof (rule ccontr)
  assume "retry_until_found create b name host uuid (Some secs) retry_wait st \<noteq> None"
  then obtain y where y: "retry_until_found create b name host uuid (Some secs) retry_wait st = Some y"
    by auto
  have "(\<exists>s. Some secs = Some s \<and> 0 \<le> s) \<longrightarrow>
      (\<exists>i. create name host uuid retry_wait (attempts st + i) \<noteq> None)"
  proof (rule retry_until_found.raw_induct
      [where P = "\<lambda>create b name host uuid wait retry_wait st y.
          (\<exists>s. wait = Some s \<and> 0 \<le> s) \<longrightarrow>
          (\<exists>i. create name host uuid retry_wait (attempts st + i) \<noteq> None)",
       OF _ y], goal_cases)
    case (1 f create b name host uuid wait retry_wait st y)
    show ?case
    proof (cases "create name host uuid retry_wait (attempts st)")
      case None
      show ?thesis
      proof
        assume "\<exists>s. wait = Some s \<and> 0 \<le> s"
        then obtain secs where w: "wait = Some secs" "0 \<le> secs" by auto
        let ?st = "emit [LogInfo (device_of b name host uuid) secs, Sleep secs]
            (st\<lparr>attempts := Suc (attempts st)\<rparr>)"
        from 1(2) None w have "f create b name host uuid wait retry_wait ?st = Some y"
          by (simp add: Let_def sleep_def emit_def)
        from 1(1) [OF this] w obtain i
          where "create name host uuid retry_wait (attempts ?st + i) \<noteq> None" by auto
        then have "create name host uuid retry_wait (attempts st + Suc i) \<noteq> None"
          by (simp add: emit_def)
        then show "\<exists>i. create name host uuid retry_wait (attempts st + i) \<noteq> None" by blast
      qed
    next
      case (Some m)
      then have "create name host uuid retry_wait (attempts st + 0) \<noteq> None" by simp
      then show ?thesis by blast
    qed
  qed
  with assms show False by simp
qed


text \<open>
  C6. With the wait disabled, a failed attempt makes the loop return \<open>None\<close> at once:
  one attempt, and a trace with no log entry and no sleep added. With a wait of
  \<open>secs\<close> seconds, \<open>secs\<close> not negative, a failed attempt is followed by the log
  entry and the sleep of \<open>secs\<close>, and the loop goes on from there; if the attempts
  fail \<open>k\<close> times and then succeed, the loop returns the server after \<open>k + 1\<close>
  attempts, \<open>k\<close> log entries and \<open>k\<close> sleeps; if they fail for ever, the loop never
  returns; and whatever it returns is a server.
\<close>

theorem retry_until_found_loop:
  "(create name host uuid retry_wait (attempts st) = None \<longrightarrow>
      retry_until_found create b name host uuid None retry_wait st =
        Some (Inr None, st\<lparr>attempts := Suc (attempts st)\<rparr>)) \<and>
   (0 \<le> secs \<and> create name host uuid retry_wait (attempts st) = None \<longrightarrow>
      retry_until_found create b name host uuid (Some secs) retry_wait st =
        retry_until_found create b name host uuid (Some secs) retry_wait
          (emit [LogInfo (device_of b name host uuid) secs, Sleep secs]
             (st\<lparr>attempts := Suc (attempts st)\<rparr>))) \<and>
   (0 \<le> secs \<and> (\<forall>i<k. create name host uuid retry_wait (attempts st + i) = None) \<and>
    create name host uuid retry_wait (attempts st + k) = Some m \<longrightarrow>
      retry_until_found create b name host uuid (Some secs) retry_wait st =
        Some (Inr (Some m),
          st\<lparr>attempts := Suc (attempts st + k),
             trace := trace st @
               concat (replicate k [LogInfo (device_of b name host uuid) secs, Sleep secs])\<rparr>)) \<and>
   (0 \<le> secs \<and> (\<forall>i. create name host uuid retry_wait (attempts st + i) = None) \<longrightarrow>
      retry_until_found create b name host uuid (Some secs) retry_wait st = None) \<and>
   (retry_until_found create b name host uuid (Some secs) retry_wait st = Some (Inr r, st') \<longrightarrow>
      r \<noteq> None)"
  using retry_disabled [of create name host uuid retry_wait st b]
    retry_step [of create name host uuid retry_wait st secs b]
    retry_after_failures [of secs k create name host uuid retry_wait st m b]
    retry_never [of secs create name host uuid retry_wait st b]
    retry_only_success [of create b name host uuid "Some secs" retry_wait st r st']
  by blast

theorem retry_until_found_loop_witness:
  "retry_until_found create_never sample_externals (Some ''TV'') None None None None world0 =
     Some (Inr None, \<lparr>attempts = 1, trace = []\<rparr>) \<and>
   retry_until_found create_third sample_externals (Some ''TV'') None None (Some 5) None world0 =
     Some (Inr (Some ''mpris''),
       \<lparr>attempts = 3, trace = [LogInfo ''TV'' 5, Sleep 5, LogInfo ''TV'' 5, Sleep 5]\<rparr>) \<and>
   retry_until_found create_never sample_externals (Some ''TV'') None None (Some 5) None world0 =
     None"
proof -
  note never = retry_until_found_loop
      [of create_never "Some ''TV''" None None None world0 sample_externals 5 0 "''mpris''" None world0]
  note third = retry_until_found_loop
      [of create_third "Some ''TV''" None None None world0 sample_externals 5 2 "''mpris''" None world0]
  have "retry_until_found create_never sample_externals (Some ''TV'') None None None None world0 =
     Some (Inr None, \<lparr>attempts = 1, trace = []\<rparr>)"
    using never [THEN conjunct1] by (simp add: create_never_def world0_def)
  moreover have "retry_until_found create_third sample_externals (Some ''TV'') None None (Some 5)
      None world0 =
     Some (Inr (Some ''mpris''),
       \<lparr>attempts = 3, trace = [LogInfo ''TV'' 5, Sleep 5, LogInfo ''TV'' 5, Sleep 5]\<rparr>)"
    using third [THEN conjunct2, THEN conjunct2, THEN conjunct1]
    by (simp add: create_third_def world0_def device_of_def str_or_def numeral_2_eq_2)
  moreover have "retry_until_found create_never sample_externals (Some ''TV'') None None (Some 5)
      None world0 = None"
    using never [THEN conjunct2, THEN conjunct2, THEN conjunct2, THEN conjunct1]
    by (simp add: create_never_def)
  ultimately show ?thesis by simp
qed

lemma retry_empty_iff:
  "(\<exists>st1. retry_until_found create b name host uuid wait retry_wait st = Some (Inr None, st1)) \<longleftrightarrow>
     wait = None \<and> create name host uuid retry_wait (attempts st) = None"
proof (cases wait)
  case None
  show ?thesis
  proof (cases "create name host uuid retry_wait (attempts st)")
    case None
    with \<open>wait = None\<close> show ?thesis
      using retry_disabled [of create name host uuid retry_wait st b] by simp
  next
    case (Some m)
    then show ?thesis
      using retry_found [of create name host uuid retry_wait st m b wait] by simp
  qed
next
  case (Some secs)
  then show ?thesis
    using retry_only_success [of create b name host uuid wait retry_wait st None] by auto
qed

lemma set_log_level_cases:
  "set_log_level log_level st =
     (if str_upper log_level \<in> set level_names
      then Inr (emit [BasicConfig (str_upper log_level)] st) else Inl ValueError)"
  by (simp add: set_log_level_def Let_def)

text \<open>
  C7. \<open>run_server\<close> first sets the log level, and a level name that the logging
  library does not know ends it, and \<open>run_safe\<close>, with \<open>ValueError\<close> before discovery
  starts. With a level name that the library knows: if discovery returns \<open>None\<close>,
  \<open>run_server\<close> raises \<open>NoChromecastFoundException\<close> with the device's identifier,
  and \<open>run_safe\<close> logs the warning and exits with \<open>RC_NO_CHROMECAST\<close>; if discovery
  returns a server, \<open>run_server\<close> sets the icon when asked, enters the server's loop
  and raises nothing, and \<open>run_safe\<close> returns; if discovery ends with another
  exception, which can only be the \<open>ValueError\<close> of a negative wait, both pass it on
  and \<open>run_safe\<close> does not turn it into an exit code; if discovery never returns,
  neither do they. So the exception, and the exit, happen exactly when discovery is
  reached and returns \<open>None\<close>, which is exactly when the wait is disabled and the
  first attempt fails; and the loop is entered exactly when discovery is reached and
  returns a server. The only exit code of \<open>run_safe\<close> is \<open>RC_NO_CHROMECAST\<close>, which
  is not zero when the constant is as the spec says.
\<close>

theorem run_server_not_found:
  "(let level = str_upper log_level;
        known = (level \<in> set level_names);
        found = retry_until_found create b name host uuid wait retry_wait
                  (emit [BasicConfig level] st);
        server = run_server create b name host uuid wait retry_wait icon log_level st;
        safe = run_safe create b name host uuid wait retry_wait icon log_level st;
        e = NoChromecastFoundException (device_of b name host uuid)
    in (\<not> known \<longrightarrow>
          server = Some (Inl ValueError, st) \<and> safe = Some (Inl ValueError, st)) \<and>
       (known \<and> found = Some (Inr None, st1) \<longrightarrow>
          server = Some (Inl e, st1) \<and>
          safe = Some (Inl (SystemExit (RC_NO_CHROMECAST b)), emit [LogWarning e] st1)) \<and>
       (known \<and> found = Some (Inr (Some m), st1) \<longrightarrow>
          server = Some (Inr (), emit [Loop] (if icon then emit [SetIcon True] st1 else st1)) \<and>
          safe = Some (Inr (), emit [Loop] (if icon then emit [SetIcon True] st1 else st1))) \<and>
       (known \<and> found = Some (Inl x, st1) \<longrightarrow>
          x = ValueError \<and> server = Some (Inl x, st1) \<and> safe = Some (Inl x, st1)) \<and>
       (known \<and> found = None \<longrightarrow> server = None \<and> safe = None) \<and>
       ((\<exists>d st'. server = Some (Inl (NoChromecastFoundException d), st')) \<longleftrightarrow>
          known \<and> (\<exists>st'. found = Some (Inr None, st'))) \<and>
       ((\<exists>rc st'. safe = Some (Inl (SystemExit rc), st')) \<longleftrightarrow>
          known \<and> (\<exists>st'. found = Some (Inr None, st'))) \<and>
       ((\<exists>st'. server = Some (Inr (), st')) \<longleftrightarrow>
          known \<and> (\<exists>m' st'. found = Some (Inr (Some m'), st'))) \<and>
       ((\<exists>st'. found = Some (Inr None, st')) \<longleftrightarrow>
          wait = None \<and> create name host uuid retry_wait (attempts st) = None) \<and>
       (\<forall>rc st'. safe = Some (Inl (SystemExit rc), st') \<longrightarrow>
          rc = RC_NO_CHROMECAST b \<and> (nonzero_exit_code b \<longrightarrow> rc \<noteq> 0)))"
proof -
  let ?level = "str_upper log_level"
  let ?st0 = "emit [BasicConfig ?level] st"
  let ?found = "retry_until_found create b name host uuid wait retry_wait ?st0"
  have att: "attempts ?st0 = attempts st"
    by (simp add: emit_def)
  have last: "(\<exists>st'. ?found = Some (Inr None, st')) \<longleftrightarrow>
          wait = None \<and> create name host uuid retry_wait (attempts st) = None"
    using retry_empty_iff [of create b name host uuid wait retry_wait ?st0] att by simp
  show ?thesis
  proof (cases "?level \<in> set level_names")
    case False
    with last show ?thesis
      by (simp add: run_server_def run_safe_def set_log_level_cases nonzero_exit_code_def Let_def)
  next
    case True
    show ?thesis
    proof (cases ?found)
      case None
      with True last show ?thesis
        by (simp add: run_server_def run_safe_def set_log_level_cases nonzero_exit_code_def Let_def)
    next
      case (Some p)
      obtain r st2 where p: "p = (r, st2)" by (cases p)
      show ?thesis
      proof (cases r)
        case (Inl y)
        with Some p have "y = ValueError"
          using retry_error [of create b name host uuid wait retry_wait ?st0 y st2] by simp
        with Inl Some p True last show ?thesis
          by (simp add: run_server_def run_safe_def set_log_level_cases nonzero_exit_code_def Let_def)
      next
        case (Inr mpris)
        show ?thesis
        proof (cases mpris)
          case None
          with Inr Some p True last show ?thesis
            by (simp add: run_server_def run_safe_def set_log_level_cases nonzero_exit_code_def Let_def)
        next
          case (Some m')
          with Inr \<open>?found = Some p\<close> p True last show ?thesis
            by (simp add: run_server_def run_safe_def set_log_level_cases nonzero_exit_code_def Let_def)
        qed
      qed
    qed
  qed
qed

lemma upper_info: "str_upper ''info'' = ''INFO''"
  by (simp add: str_upper_def upper_char_def ascii_uppercase_def ascii_lowercase_def)

lemma upper_verbose: "str_upper ''verbose'' = ''VERBOSE''"
  by (simp add: str_upper_def upper_char_def ascii_uppercase_def ascii_lowercase_def)

theorem run_server_not_found_witness:
  "run_server create_never sample_externals (Some ''TV'') None None None None False ''info'' world0 =
     Some (Inl (NoChromecastFoundException ''TV''),
           \<lparr>attempts = 1, trace = [BasicConfig ''INFO'']\<rparr>) \<and>
   run_safe create_never sample_externals (Some ''TV'') None None None None False ''info'' world0 =
     Some (Inl (SystemExit 1),
           \<lparr>attempts = 1,
              trace = [BasicConfig ''INFO'', LogWarning (NoChromecastFoundException ''TV'')]\<rparr>) \<and>
   nonzero_exit_code sample_externals \<and>
   run_safe create_third sample_externals (Some ''TV'') None None (Some 5) None True ''info'' world0 =
     Some (Inr (),
           \<lparr>attempts = 3,
              trace = [BasicConfig ''INFO'', LogInfo ''TV'' 5, Sleep 5, LogInfo ''TV'' 5, Sleep 5,
                       SetIcon True, Loop]\<rparr>) \<and>
   run_safe create_never sample_externals (Some ''TV'') None None (Some (- 1)) None False ''info''
       world0 =
     Some (Inl ValueError,
           \<lparr>attempts = 1, trace = [BasicConfig ''INFO'', LogInfo ''TV'' (- 1)]\<rparr>) \<and>
   run_safe create_never sample_externals (Some ''TV'') None None (Some 5) None False ''info''
       world0 = None \<and>
   run_server create_never sample_externals (Some ''TV'') None None None None False ''verbose''
       world0 = Some (Inl ValueError, world0) \<and>
   run_safe create_never sample_externals (Some ''TV'') None None None None False ''verbose''
       world0 = Some (Inl ValueError, world0)"
proof -
  let ?st = "emit [BasicConfig ''INFO''] world0"
  have st: "?st = \<lparr>attempts = 0, trace = [BasicConfig ''INFO'']\<rparr>"
    by (simp add: emit_def world0_def)
  have known: "''INFO'' \<in> set level_names" "''VERBOSE'' \<notin> set level_names"
    by (simp_all add: level_names_def)
  have code: "nonzero_exit_code sample_externals" "RC_NO_CHROMECAST sample_externals = 1"
    by (simp_all add: nonzero_exit_code_def sample_externals_def)
  have never: "retry_until_found create_never sample_externals (Some ''TV'') None None None None ?st =
      Some (Inr None, \<lparr>attempts = 1, trace = [BasicConfig ''INFO'']\<rparr>)"
    using retry_disabled [of create_never "Some ''TV''" None None None ?st sample_externals]
    by (simp add: st create_never_def)
  have third: "retry_until_found create_third sample_externals (Some ''TV'') None None (Some 5)
      None ?st =
      Some (Inr (Some ''mpris''),
        \<lparr>attempts = 3,
           trace = [BasicConfig ''INFO'', LogInfo ''TV'' 5, Sleep 5, LogInfo ''TV'' 5, Sleep 5]\<rparr>)"
    using retry_after_failures [of 5 2 create_third "Some ''TV''" None None None ?st "''mpris''"
        sample_externals]
    by (simp add: st create_third_def device_of_def str_or_def numeral_2_eq_2)
  have negative: "retry_until_found create_never sample_externals (Some ''TV'') None None
      (Some (- 1)) None ?st =
      Some (Inl ValueError,
        \<lparr>attempts = 1, trace = [BasicConfig ''INFO'', LogInfo ''TV'' (- 1)]\<rparr>)"
    using retry_negative_wait [of create_never "Some ''TV''" None None None ?st "- 1"
        sample_externals]
    by (simp add: create_never_def device_of_def str_or_def emit_def world0_def)
  have forever: "retry_until_found create_never sample_externals (Some ''TV'') None None
      (Some 5) None ?st = None"
    using retry_never [of 5 create_never "Some ''TV''" None None None ?st sample_externals]
    by (simp add: create_never_def)
  note at_never = run_server_not_found [where create = create_never and b = sample_externals
        and name = "Some ''TV''" and host = None and uuid = None and wait = None
        and retry_wait = None and log_level = "''info''" and st = world0 and icon = False
        and ?st1.0 = "\<lparr>attempts = 1, trace = [BasicConfig ''INFO'']\<rparr>" and m = "''mpris''"
        and x = ValueError]
  note at_third = run_server_not_found [where create = create_third and b = sample_externals
        and name = "Some ''TV''" and host = None and uuid = None and wait = "Some 5"
        and retry_wait = None and log_level = "''info''" and st = world0 and icon = True
        and ?st1.0 = "\<lparr>attempts = 3,
           trace = [BasicConfig ''INFO'', LogInfo ''TV'' 5, Sleep 5, LogInfo ''TV'' 5, Sleep 5]\<rparr>"
        and m = "''mpris''" and x = ValueError]
  note at_negative = run_server_not_found [where create = create_never and b = sample_externals
        and name = "Some ''TV''" and host = None and uuid = None and wait = "Some (- 1)"
        and retry_wait = None and log_level = "''info''" and st = world0 and icon = False
        and ?st1.0 = "\<lparr>attempts = 1, trace = [BasicConfig ''INFO'', LogInfo ''TV'' (- 1)]\<rparr>"
        and m = "''mpris''" and x = ValueError]
  note at_forever = run_server_not_found [where create = create_never and b = sample_externals
        and name = "Some ''TV''" and host = None and uuid = None and wait = "Some 5"
        and retry_wait = None and log_level = "''info''" and st = world0 and icon = False
        and ?st1.0 = world0 and m = "''mpris''" and x = ValueError]
  note at_verbose = run_server_not_found [where create = create_never and b = sample_externals
        and name = "Some ''TV''" and host = None and uuid = None and wait = None
        and retry_wait = None and log_level = "''verbose''" and st = world0 and icon = False
        and ?st1.0 = world0 and m = "''mpris''" and x = ValueError]
  have "run_server create_never sample_externals (Some ''TV'') None None None None False ''info''
      world0 =
     Some (Inl (NoChromecastFoundException ''TV''),
           \<lparr>attempts = 1, trace = [BasicConfig ''INFO'']\<rparr>) \<and>
   run_safe create_never sample_externals (Some ''TV'') None None None None False ''info'' world0 =
     Some (Inl (SystemExit 1),
           \<lparr>attempts = 1,
              trace = [BasicConfig ''INFO'', LogWarning (NoChromecastFoundException ''TV'')]\<rparr>)"
    using at_never never known(1) code(2)
    by (simp add: Let_def upper_info emit_def device_of_def str_or_def)
  moreover have "run_safe create_third sample_externals (Some ''TV'') None None (Some 5) None True
      ''info'' world0 =
     Some (Inr (),
           \<lparr>attempts = 3,
              trace = [BasicConfig ''INFO'', LogInfo ''TV'' 5, Sleep 5, LogInfo ''TV'' 5, Sleep 5,
                       SetIcon True, Loop]\<rparr>)"
    using at_third third known(1)
    by (simp add: Let_def upper_info emit_def)
  moreover have "run_safe create_never sample_externals (Some ''TV'') None None (Some (- 1)) None
      False ''info'' world0 =
     Some (Inl ValueError,
           \<lparr>attempts = 1, trace = [BasicConfig ''INFO'', LogInfo ''TV'' (- 1)]\<rparr>)"
    using at_negative negative known(1)
    by (simp add: Let_def upper_info)
  moreover have "run_safe create_never sample_externals (Some ''TV'') None None (Some 5) None
      False ''info'' world0 = None"
    using at_forever forever known(1)
    by (simp add: Let_def upper_info)
  moreover have "run_server create_never sample_externals (Some ''TV'') None None None None False
      ''verbose'' world0 = Some (Inl ValueError, world0) \<and>
    run_safe create_never sample_externals (Some ''TV'') None None None None False ''verbose''
      world0 = Some (Inl ValueError, world0)"
    using at_verbose known(2)
    by (simp add: Let_def upper_verbose)
  ultimately show ?thesis
    using code(1) by simp
qed


section \<open>Properties of the argument store\<close>

text \<open>
  C8, at two sessions. The property \<open>file\<close> names a file for each device, but \<open>save\<close>,
  \<open>load\<close> and \<open>delete\<close> use the one path \<open>ARGS\<close>: after the arguments of the device
  \<open>TV\<close> and then those of the device \<open>Speaker\<close> are saved, the only file is \<open>ARGS\<close>
  and \<open>load\<close> returns the arguments of \<open>Speaker\<close>. \<open>load\<close> on a missing file is
  \<open>None\<close>, and \<open>delete\<close> on a missing file changes nothing.
\<close>

theorem daemon_args_single_file:
  "DaemonArgs_file sample_externals args_tv =
     Inr \<lparr>parent = ''/tmp'', stem = ''TV-args'', suffix = ''.tmp''\<rparr> \<and>
   DaemonArgs_file sample_externals args_speaker =
     Inr \<lparr>parent = ''/tmp'', stem = ''Speaker-args'', suffix = ''.tmp''\<rparr> \<and>
   load sample_externals (save sample_externals args_speaker (save sample_externals args_tv Map.empty)) =
     Some args_speaker \<and>
   dom (save sample_externals args_speaker (save sample_externals args_tv Map.empty)) =
     {\<lparr>parent = ''/tmp'', stem = ''service-args'', suffix = ''.tmp''\<rparr>} \<and>
   load sample_externals (delete sample_externals (save sample_externals args_tv Map.empty)) = None \<and>
   load sample_externals Map.empty = None \<and>
   delete sample_externals Map.empty = Map.empty"
  by (simp add: DaemonArgs_file_def with_stem_def device_of_def str_or_def load_def save_def
      delete_def path_exists_def args_tv_def args_speaker_def sample_externals_def)

end
